theory Spec2Isabelle
  imports Complex_Main "HOL-Library.Word"
begin

unbundle bit_operations_syntax

section \<open>Fretless.c: the gesture-to-MIDI encoder\<close>

text \<open>
  The embedding follows \<^verbatim>\<open>Fretless.c\<close> function by function.

  \<^item> C \<^verbatim>\<open>int\<close> is modelled by \<open>int\<close>. The two agree wherever the C arithmetic does
    not overflow; signed overflow is undefined in C and is not given a meaning here.
  \<^item> C \<^verbatim>\<open>float\<close> is modelled by \<open>real\<close>; a conversion to \<^verbatim>\<open>int\<close> truncates towards
    zero (\<open>c_int\<close>). Rounding of float operations is not modelled.
  \<^item> The arrays of the context are total functions on \<open>int\<close>. C gives no meaning to
    an access outside the bounds; the theorems keep their indices inside.
  \<^item> The injected callbacks (\<^verbatim>\<open>midiPutch\<close>, \<^verbatim>\<open>midiFlush\<close>, \<^verbatim>\<open>fail\<close>, \<^verbatim>\<open>logger\<close>,
    \<^verbatim>\<open>passed\<close>) append one event each to the field \<open>trace\<close> of the context and
    return, so the code after a call of \<^verbatim>\<open>fail\<close> runs as it does in C.
\<close>

subsection \<open>Constants\<close>

text \<open>Modelled from the spec: \<^verbatim>\<open>FretlessCommon.h\<close> is not among the sources. The spec gives
  \<^verbatim>\<open>FINGER_MAX = 16\<close> and a sentinel \<^verbatim>\<open>NONE\<close> for finger ids outside the finger range;
  \<^verbatim>\<open>TRUE\<close> and \<^verbatim>\<open>FALSE\<close> are the C truth values.\<close>

definition FINGERMAX :: int where "FINGERMAX = 16"
definition NOBODY :: int where "NOBODY = - 1"
definition TRUE :: int where "TRUE = 1"
definition FALSE :: int where "FALSE = 0"

definition CTXSTATE_INIT :: int where "CTXSTATE_INIT = 0"
definition CTXSTATE_BOOTED :: int where "CTXSTATE_BOOTED = 1"
definition CHANNELMAX :: int where "CHANNELMAX = 16"
definition POLYMAX :: int where "POLYMAX = 16"
definition NOTEMAX :: int where "NOTEMAX = 128"
definition MIDI_ON :: int where "MIDI_ON = 0x90"
definition MIDI_BEND :: int where "MIDI_BEND = 0xE0"
definition BENDCENTER :: int where "BENDCENTER = 8192"

subsection \<open>C arithmetic\<close>

text \<open>\<^verbatim>\<open>(int)x\<close> for a float \<open>x\<close>: truncation towards zero.\<close>

definition c_int :: "real \<Rightarrow> int" where
  "c_int x = (if 0 \<le> x then \<lfloor>x\<rfloor> else \<lceil>x\<rceil>)"

text \<open>\<^verbatim>\<open>a % b\<close> on C ints: the remainder of the division that truncates towards zero,
  so it has the sign of \<open>a\<close>.\<close>

definition c_mod :: "int \<Rightarrow> int \<Rightarrow> int" where
  "c_mod a b = sgn a * (\<bar>a\<bar> mod \<bar>b\<bar>)"

subsection \<open>State\<close>

record Fretless_polyState =
  currentFingerInPolyGroup :: int

record Fretless_channelState =
  lastBend :: int
  lastAftertouch :: int
  currentFingerInChannel :: int
  useCount :: int

record Fretless_fingerState =
  isOn :: int
  isSupressed :: int
  samplePhase :: real
  channel :: int
  "note" :: int
  bend :: int
  velocity :: int
  polyGroup :: int
  nextFingerInPolyGroup :: int
  prevFingerInPolyGroup :: int
  nextFingerInChannel :: int
  prevFingerInChannel :: int
  visitingPolyGroup :: int

text \<open>What the injected callbacks were called with, in order.\<close>

datatype event =
    Putch "8 word"
  | Flush
  | Fail string
  | Logger string
  | Passed

record Fretless_context =
  fingers :: "int \<Rightarrow> Fretless_fingerState"
  channels :: "int \<Rightarrow> Fretless_channelState"
  polys :: "int \<Rightarrow> Fretless_polyState"
  ctxState :: int
  lastAllocatedChannel :: int
  fingersDownCount :: int
  noteChannelDownCount :: "int \<Rightarrow> int \<Rightarrow> int"
  noteChannelDownRawBalance :: "int \<Rightarrow> int \<Rightarrow> int"
  channelBase :: int
  channelSpan :: int
  channelBendSemis :: int
  supressBends :: int
  trace :: "event list"

subsection \<open>Callbacks and array updates\<close>

definition midiPutch :: "int \<Rightarrow> Fretless_context \<Rightarrow> Fretless_context" where
  "midiPutch v ctx = ctx\<lparr>trace := trace ctx @ [Putch (word_of_int v)]\<rparr>"

definition midiFlush :: "Fretless_context \<Rightarrow> Fretless_context" where
  "midiFlush ctx = ctx\<lparr>trace := trace ctx @ [Flush]\<rparr>"

definition fail :: "string \<Rightarrow> Fretless_context \<Rightarrow> Fretless_context" where
  "fail msg ctx = ctx\<lparr>trace := trace ctx @ [Fail msg]\<rparr>"

definition logger :: "string \<Rightarrow> Fretless_context \<Rightarrow> Fretless_context" where
  "logger msg ctx = ctx\<lparr>trace := trace ctx @ [Logger msg]\<rparr>"

definition passed :: "Fretless_context \<Rightarrow> Fretless_context" where
  "passed ctx = ctx\<lparr>trace := trace ctx @ [Passed]\<rparr>"

text \<open>\<^verbatim>\<open>ctxp->fingers[f].field = ...\<close>, \<^verbatim>\<open>ctxp->channels[c].field = ...\<close>,
  \<^verbatim>\<open>ctxp->polys[p].field = ...\<close> and the two ledgers.\<close>

definition set_finger ::
  "int \<Rightarrow> (Fretless_fingerState \<Rightarrow> Fretless_fingerState) \<Rightarrow> Fretless_context \<Rightarrow> Fretless_context" where
  "set_finger f g ctx = ctx\<lparr>fingers := (fingers ctx)(f := g (fingers ctx f))\<rparr>"

definition set_channel ::
  "int \<Rightarrow> (Fretless_channelState \<Rightarrow> Fretless_channelState) \<Rightarrow> Fretless_context \<Rightarrow> Fretless_context" where
  "set_channel c g ctx = ctx\<lparr>channels := (channels ctx)(c := g (channels ctx c))\<rparr>"

definition set_poly ::
  "int \<Rightarrow> (Fretless_polyState \<Rightarrow> Fretless_polyState) \<Rightarrow> Fretless_context \<Rightarrow> Fretless_context" where
  "set_poly p g ctx = ctx\<lparr>polys := (polys ctx)(p := g (polys ctx p))\<rparr>"

definition set_downCount :: "int \<Rightarrow> int \<Rightarrow> int \<Rightarrow> Fretless_context \<Rightarrow> Fretless_context" where
  "set_downCount n c v ctx =
     ctx\<lparr>noteChannelDownCount := (noteChannelDownCount ctx)(n := (noteChannelDownCount ctx n)(c := v))\<rparr>"

definition set_rawBalance :: "int \<Rightarrow> int \<Rightarrow> int \<Rightarrow> Fretless_context \<Rightarrow> Fretless_context" where
  "set_rawBalance n c v ctx =
     ctx\<lparr>noteChannelDownRawBalance :=
           (noteChannelDownRawBalance ctx)(n := (noteChannelDownRawBalance ctx n)(c := v))\<rparr>"

text \<open>The bytes that reached \<^verbatim>\<open>midiPutch\<close>, and the messages that reached \<^verbatim>\<open>fail\<close>.\<close>

fun midiBytes :: "event list \<Rightarrow> 8 word list" where
  "midiBytes [] = []"
| "midiBytes (Putch b # es) = b # midiBytes es"
| "midiBytes (e # es) = midiBytes es"

fun failures :: "event list \<Rightarrow> string list" where
  "failures [] = []"
| "failures (Fail m # es) = m # failures es"
| "failures (e # es) = failures es"

subsection \<open>The checking macros\<close>

definition STATECHECK :: "Fretless_context \<Rightarrow> Fretless_context" where
  "STATECHECK ctx =
     (if ctxState ctx \<noteq> CTXSTATE_BOOTED then fail ''context is not booted yet'' ctx else ctx)"

definition FINGERCHECK :: "int \<Rightarrow> Fretless_context \<Rightarrow> Fretless_context" where
  "FINGERCHECK finger ctx =
     (if finger < 0 \<or> finger \<ge> FINGERMAX then fail ''finger out of range %d'' ctx else ctx)"

definition POLYCHECK :: "int \<Rightarrow> Fretless_context \<Rightarrow> Fretless_context" where
  "POLYCHECK pg ctx =
     (if pg < 0 \<or> pg \<ge> POLYMAX then fail ''poly group out of range %d'' ctx else ctx)"

definition FNOTECHECK :: "real \<Rightarrow> Fretless_context \<Rightarrow> Fretless_context" where
  "FNOTECHECK fnote ctx =
     (if fnote < - 0.5 \<or> fnote \<ge> 127.5 then fail ''fnote %d'' ctx else ctx)"

subsection \<open>Init, hints and boot\<close>

text \<open>\<^verbatim>\<open>Fretless_init\<close> writes five fields of the block the allocator returned and keeps
  the callbacks; every other field holds what the block held. The argument is that block.\<close>

definition Fretless_init :: "Fretless_context \<Rightarrow> Fretless_context" where
  "Fretless_init mem =
     mem\<lparr>ctxState := CTXSTATE_INIT, channelSpan := 8, channelBase := 0,
         channelBendSemis := 2, supressBends := FALSE, trace := []\<rparr>"

definition Fretless_reset_FingerState :: "Fretless_fingerState \<Rightarrow> Fretless_fingerState" where
  "Fretless_reset_FingerState fs =
     fs\<lparr>isOn := FALSE, samplePhase := 0, channel := 0, note := 0, velocity := 0,
        bend := BENDCENTER, nextFingerInPolyGroup := NOBODY, prevFingerInPolyGroup := NOBODY,
        nextFingerInChannel := NOBODY, prevFingerInChannel := NOBODY, isSupressed := FALSE,
        visitingPolyGroup := NOBODY, polyGroup := NOBODY\<rparr>"

definition Fretless_setMidiHintSupressBends :: "Fretless_context \<Rightarrow> int \<Rightarrow> Fretless_context" where
  "Fretless_setMidiHintSupressBends ctx s = ctx\<lparr>supressBends := s\<rparr>"

definition Fretless_setMidiHintChannelBase :: "Fretless_context \<Rightarrow> int \<Rightarrow> Fretless_context" where
  "Fretless_setMidiHintChannelBase ctx base =
     (let c = (if base < 0 \<or> base \<ge> CHANNELMAX
               then fail ''%d: base > 0 || base >= CHANNELMAX'' ctx else ctx);
          c = c\<lparr>channelBase := base\<rparr>
      in if channelBase c + channelSpan c > FINGERMAX
         then c\<lparr>channelSpan := FINGERMAX - channelBase c\<rparr> else c)"

definition Fretless_getMidiHintChannelBase :: "Fretless_context \<Rightarrow> int" where
  "Fretless_getMidiHintChannelBase ctx = channelBase ctx"

definition Fretless_setMidiHintChannelSpan :: "Fretless_context \<Rightarrow> int \<Rightarrow> Fretless_context" where
  "Fretless_setMidiHintChannelSpan ctx sp =
     (let c = (if sp < 1 \<or> sp > CHANNELMAX
               then fail ''%d: span < 0 || span > CHANNELMAX'' ctx else ctx);
          c = c\<lparr>channelSpan := sp\<rparr>
      in if channelBase c + channelSpan c > FINGERMAX
         then c\<lparr>channelSpan := FINGERMAX - channelBase c\<rparr> else c)"

definition Fretless_getMidiHintChannelSpan :: "Fretless_context \<Rightarrow> int" where
  "Fretless_getMidiHintChannelSpan ctx = channelSpan ctx"

text \<open>One turn of the loop of \<^verbatim>\<open>Fretless_setMidiHintChannelBendSemis\<close>: the pitch-bend-range
  RPN for channel \<open>channelBase + c\<close>.\<close>

definition bendSemis_rpn :: "int \<Rightarrow> int \<Rightarrow> Fretless_context \<Rightarrow> Fretless_context" where
  "bendSemis_rpn semitones c ctx =
     (let ch = channelBase ctx + c;
          x = midiPutch (0xB0 + ch) ctx; x = midiPutch 101 x; x = midiPutch 0 x;
          x = midiPutch (0xB0 + ch) x; x = midiPutch 100 x; x = midiPutch 0 x;
          x = midiPutch (0xB0 + ch) x; x = midiPutch 6 x; x = midiPutch semitones x;
          x = midiPutch (0xB0 + ch) x; x = midiPutch 38 x; x = midiPutch 0 x;
          x = midiPutch (0xB0 + ch) x; x = midiPutch 101 x; x = midiPutch 127 x;
          x = midiPutch (0xB0 + ch) x; x = midiPutch 100 x; x = midiPutch 127 x
      in x)"

definition Fretless_setMidiHintChannelBendSemis :: "Fretless_context \<Rightarrow> int \<Rightarrow> Fretless_context" where
  "Fretless_setMidiHintChannelBendSemis ctx semitones =
     (let c = (if semitones < 1 \<or> semitones > 24
               then fail ''%d: semitones < 1 || semitones > 24 -- MIDI spec limits to 24'' ctx
               else ctx);
          c = c\<lparr>channelBendSemis := semitones\<rparr>
      in if ctxState c = CTXSTATE_BOOTED
         then fold (bendSemis_rpn semitones) [0..channelSpan c - 1] c else c)"

definition Fretless_getMidiHintChannelBendSemis :: "Fretless_context \<Rightarrow> int" where
  "Fretless_getMidiHintChannelBendSemis ctx = channelBendSemis ctx"

text \<open>The three reset loops of \<^verbatim>\<open>Fretless_boot\<close>.\<close>

definition boot_note :: "int \<Rightarrow> int \<Rightarrow> Fretless_context \<Rightarrow> Fretless_context" where
  "boot_note c n ctx = set_rawBalance n c 0 (set_downCount n c 0 ctx)"

definition boot_channel :: "int \<Rightarrow> Fretless_context \<Rightarrow> Fretless_context" where
  "boot_channel c ctx =
     fold (boot_note c) [0..NOTEMAX - 1]
       (set_channel c (\<lambda>cs. cs\<lparr>lastBend := BENDCENTER, useCount := 0,
                                currentFingerInChannel := NOBODY, lastAftertouch := 0\<rparr>) ctx)"

definition boot_finger :: "int \<Rightarrow> Fretless_context \<Rightarrow> Fretless_context" where
  "boot_finger f ctx = set_finger f Fretless_reset_FingerState ctx"

definition boot_poly :: "int \<Rightarrow> Fretless_context \<Rightarrow> Fretless_context" where
  "boot_poly p ctx = set_poly p (\<lambda>ps. ps\<lparr>currentFingerInPolyGroup := NOBODY\<rparr>) ctx"

definition Fretless_boot :: "Fretless_context \<Rightarrow> Fretless_context" where
  "Fretless_boot ctx =
     (let c = fold boot_channel [0..CHANNELMAX - 1] ctx;
          c = fold boot_finger [0..FINGERMAX - 1] c;
          c = fold boot_poly [0..POLYMAX - 1] c;
          c = c\<lparr>fingersDownCount := 0\<rparr>;
          c = c\<lparr>lastAllocatedChannel := 0\<rparr>;
          c = (if channelSpan c = 0 then fail ''Fretless_state.channelSpan == 0'' c else c);
          c = (if channelBase c < 0 then fail ''%d: Fretless_state.channelBase < 0'' c else c);
          c = (if channelBase c \<ge> CHANNELMAX
               then fail ''Fretless_state.channelBase >= CHANNELMAX'' c else c);
          c = (if channelSpan c + channelBase c \<ge> CHANNELMAX
               then fail ''Fretless_state.channelSpan:%d + Fretless_state.channelBase:%d >= CHANNELMAX'' c
               else c);
          c = c\<lparr>ctxState := CTXSTATE_BOOTED\<rparr>
      in Fretless_setMidiHintChannelBendSemis c (channelBendSemis c))"

subsection \<open>Pitch to note and bend\<close>

definition Fretless_limitVal :: "int \<Rightarrow> int \<Rightarrow> int \<Rightarrow> int" where
  "Fretless_limitVal low val high =
     (if val < low then low else if val > high then high else val)"

definition Fretless_fnoteToNoteBendPair :: "Fretless_context \<Rightarrow> real \<Rightarrow> int \<times> int" where
  "Fretless_fnoteToNoteBendPair ctx fnote =
     (let n = c_int (fnote + 0.5);
          floatBend = fnote - of_int n;
          b = c_int (of_int BENDCENTER + floatBend * of_int BENDCENTER / of_int (channelBendSemis ctx))
      in (n, b))"

definition Fretless_fnoteBendFromExisting ::
  "Fretless_context \<Rightarrow> real \<Rightarrow> Fretless_fingerState \<Rightarrow> int \<times> int" where
  "Fretless_fnoteBendFromExisting ctx fnote fs =
     (let n = note fs;
          floatBend = fnote - of_int n;
          b = c_int (of_int BENDCENTER + floatBend * of_int BENDCENTER / of_int (channelBendSemis ctx))
      in if b < 0 \<or> b \<ge> 2 * BENDCENTER then Fretless_fnoteToNoteBendPair ctx fnote else (n, b))"

definition Fretless_numTo7BitNums :: "int \<Rightarrow> int \<times> int" where
  "Fretless_numTo7BitNums n = (n AND 0x7f, drop_bit 7 n AND 0x7f)"

definition Fretless_getChannelOccupancy :: "Fretless_context \<Rightarrow> int \<Rightarrow> int" where
  "Fretless_getChannelOccupancy ctx ch = useCount (channels ctx ch)"

definition Fretless_getChannelBend :: "Fretless_context \<Rightarrow> int \<Rightarrow> real" where
  "Fretless_getChannelBend ctx ch = of_int (lastBend (channels ctx ch) - 8192) / 8192"

subsection \<open>Channel allocation\<close>

text \<open>The body of \<^verbatim>\<open>if(ctxp->channels[channel].useCount == lowUsedCount)\<close> in
  \<^verbatim>\<open>Fretless_allocChannel\<close>: the finger takes the channel.\<close>

definition Fretless_allocChannel_take :: "Fretless_context \<Rightarrow> int \<Rightarrow> int \<Rightarrow> Fretless_context" where
  "Fretless_allocChannel_take ctx finger ch =
     (let c = set_channel ch (\<lambda>cs. cs\<lparr>useCount := useCount cs + 1\<rparr>) ctx;
          cur = currentFingerInChannel (channels c ch);
          c = (if cur \<noteq> NOBODY then
                 (let c = (if nextFingerInChannel (fingers c cur) \<noteq> NOBODY
                           then fail ''ctxp->fingers[currentFingerInChannel].nextFingerInChannel != NOBODY when allocating'' c
                           else c);
                      c = set_finger cur (\<lambda>fs. fs\<lparr>nextFingerInChannel := finger\<rparr>) c;
                      c = set_finger finger (\<lambda>fs. fs\<lparr>prevFingerInChannel := cur\<rparr>) c
                  in c)
               else c);
          c = set_channel ch (\<lambda>cs. cs\<lparr>currentFingerInChannel := finger\<rparr>) c;
          c = c\<lparr>lastAllocatedChannel := ch\<rparr>
      in c)"

text \<open>The channel the inner loop looks at in turn \<open>s\<close>.\<close>

definition Fretless_allocChannel_candidate :: "Fretless_context \<Rightarrow> int \<Rightarrow> int" where
  "Fretless_allocChannel_candidate ctx s =
     (let sp = channelSpan ctx;
          base = channelBase ctx;
          last = lastAllocatedChannel ctx;
          candidate = last + 1 + s
      in c_mod (candidate - base) sp + base)"

text \<open>The inner loop of \<^verbatim>\<open>Fretless_allocChannel\<close> from \<open>s\<close> on, for one value of
  \<^verbatim>\<open>lowUsedCount\<close>: \<open>Some\<close> when the function returns inside it (with the context and the
  returned channel), \<open>None\<close> when the loop runs out.\<close>

function Fretless_allocChannel_scan ::
  "Fretless_context \<Rightarrow> int \<Rightarrow> int \<Rightarrow> int \<Rightarrow> (Fretless_context \<times> int) option" where
  "Fretless_allocChannel_scan ctx finger lowUsedCount s =
     (if s < channelSpan ctx then
        (let ch = Fretless_allocChannel_candidate ctx s
         in if useCount (channels ctx ch) < 0
            then Some (fail ''Fretless_state.channels[channel].useCount < 0 on alloc'' ctx, 0)
            else if useCount (channels ctx ch) = lowUsedCount
            then Some (Fretless_allocChannel_take ctx finger ch, ch)
            else Fretless_allocChannel_scan ctx finger lowUsedCount (s + 1))
      else None)"
  by pat_completeness auto
termination
  by (relation "measure (\<lambda>(ctx, finger, lowUsedCount, s). nat (channelSpan ctx - s))") auto

text \<open>The outer loop, \<^verbatim>\<open>for(int lowUsedCount=0; TRUE; lowUsedCount++)\<close>, has no exit of its
  own: it ends only when the inner loop returns. \<open>None\<close> is the loop that never returns.\<close>

partial_function (option) Fretless_allocChannel_from ::
  "Fretless_context \<Rightarrow> int \<Rightarrow> int \<Rightarrow> (Fretless_context \<times> int) option" where
  "Fretless_allocChannel_from ctx finger lowUsedCount =
     (case Fretless_allocChannel_scan ctx finger lowUsedCount 0 of
        Some r \<Rightarrow> Some r
      | None \<Rightarrow> Fretless_allocChannel_from ctx finger (lowUsedCount + 1))"

definition Fretless_allocChannel :: "Fretless_context \<Rightarrow> int \<Rightarrow> (Fretless_context \<times> int) option" where
  "Fretless_allocChannel ctx finger = Fretless_allocChannel_from ctx finger 0"

definition Fretless_freeChannel :: "Fretless_context \<Rightarrow> int \<Rightarrow> Fretless_context" where
  "Fretless_freeChannel ctx finger =
     (let ch = channel (fingers ctx finger);
          c = set_channel ch (\<lambda>cs. cs\<lparr>useCount := useCount cs - 1\<rparr>) ctx;
          c = (if useCount (channels c ch) < 0
               then fail ''Fretless_state.channels[%d].useCount < 0 on free'' c else c);
          prevFinger = prevFingerInChannel (fingers c finger);
          nextFinger = nextFingerInChannel (fingers c finger);
          currentFinger = currentFingerInChannel (channels c ch);
          c = (if prevFinger \<noteq> NOBODY
               then set_finger prevFinger (\<lambda>fs. fs\<lparr>nextFingerInChannel := nextFinger\<rparr>) c else c);
          c = (if nextFinger \<noteq> NOBODY
               then set_finger nextFinger (\<lambda>fs. fs\<lparr>prevFingerInChannel := prevFinger\<rparr>) c else c);
          c = set_finger finger (\<lambda>fs. fs\<lparr>prevFingerInChannel := NOBODY\<rparr>) c;
          c = set_finger finger (\<lambda>fs. fs\<lparr>nextFingerInChannel := NOBODY\<rparr>) c
      in if currentFinger = finger
         then set_channel ch (\<lambda>cs. cs\<lparr>currentFingerInChannel := prevFinger\<rparr>) c else c)"

subsection \<open>Emitting note ties, bends and aftertouch\<close>

text \<open>The functions that take \<^verbatim>\<open>fsPtr = &ctxp->fingers[finger]\<close> in C take the finger's
  index here and read the finger where the C code dereferences the pointer.\<close>

definition Fretless_noteTie :: "Fretless_context \<Rightarrow> int \<Rightarrow> Fretless_context" where
  "Fretless_noteTie ctx finger =
     (let (lsb, msb) = Fretless_numTo7BitNums 1223;
          ch = channel (fingers ctx finger);
          n = note (fingers ctx finger);
          c = midiPutch (0xB0 + ch) ctx; c = midiPutch 0x63 c; c = midiPutch msb c;
          c = midiPutch (0xB0 + ch) c; c = midiPutch 0x62 c; c = midiPutch lsb c;
          c = midiPutch (0xB0 + ch) c; c = midiPutch 0x06 c; c = midiPutch n c
      in c)"

definition Fretless_setCurrentBend :: "Fretless_context \<Rightarrow> int \<Rightarrow> Fretless_context" where
  "Fretless_setCurrentBend ctx finger =
     (let fs = fingers ctx finger in
      if lastBend (channels ctx (channel fs)) \<noteq> bend fs \<and>
         currentFingerInChannel (channels ctx (channel fs)) = finger \<and>
         isOn fs \<noteq> 0 \<and>
         supressBends ctx = FALSE
      then
        (let c = set_channel (channel fs) (\<lambda>cs. cs\<lparr>lastBend := bend fs\<rparr>) ctx;
             c = midiPutch (MIDI_BEND + channel fs) c;
             (lo, hi) = Fretless_numTo7BitNums (bend fs);
             c = midiPutch lo c;
             c = midiPutch hi c
         in c)
      else ctx)"

definition Fretless_setCurrentAftertouch :: "Fretless_context \<Rightarrow> int \<Rightarrow> real \<Rightarrow> Fretless_context" where
  "Fretless_setCurrentAftertouch ctx finger vel =
     (let c = set_finger finger (\<lambda>fs. fs\<lparr>velocity := Fretless_limitVal 1 (c_int (vel * 127)) 127\<rparr>) ctx;
          fs = fingers c finger
      in if lastAftertouch (channels c (channel fs)) \<noteq> velocity fs \<and>
            currentFingerInChannel (channels c (channel fs)) = finger \<and>
            isOn fs \<noteq> 0 \<and>
            supressBends c = FALSE
         then
           (let c = set_channel (channel fs) (\<lambda>cs. cs\<lparr>lastAftertouch := velocity fs\<rparr>) c;
                c = midiPutch (0xD0 + channel fs) c;
                c = midiPutch (velocity fs) c
            in c)
         else c)"

subsection \<open>The polyphony linker\<close>

definition Fretless_link :: "Fretless_context \<Rightarrow> int \<Rightarrow> Fretless_context \<times> int" where
  "Fretless_link ctx finger =
     (let pg = polyGroup (fingers ctx finger);
          fingerToTurnOff = currentFingerInPolyGroup (polys ctx pg);
          c = (if fingerToTurnOff \<noteq> NOBODY then
                 (let c = set_finger fingerToTurnOff (\<lambda>fs. fs\<lparr>isSupressed := TRUE\<rparr>) ctx;
                      c = set_finger fingerToTurnOff (\<lambda>fs. fs\<lparr>nextFingerInPolyGroup := finger\<rparr>) c;
                      c = set_finger finger (\<lambda>fs. fs\<lparr>prevFingerInPolyGroup := fingerToTurnOff\<rparr>) c
                  in c)
               else ctx);
          c = set_finger finger (\<lambda>fs. fs\<lparr>polyGroup := pg\<rparr>) c;
          c = set_poly pg (\<lambda>ps. ps\<lparr>currentFingerInPolyGroup := finger\<rparr>) c
      in (c, fingerToTurnOff))"

definition Fretless_unlink :: "Fretless_context \<Rightarrow> int \<Rightarrow> Fretless_context \<times> int" where
  "Fretless_unlink ctx finger =
     (let pg = polyGroup (fingers ctx finger);
          currentFinger = currentFingerInPolyGroup (polys ctx pg);
          prevFinger = prevFingerInPolyGroup (fingers ctx finger);
          nextFinger = nextFingerInPolyGroup (fingers ctx finger);
          c = (if prevFinger \<noteq> NOBODY
               then set_finger prevFinger (\<lambda>fs. fs\<lparr>nextFingerInPolyGroup := nextFinger\<rparr>) ctx else ctx);
          c = (if nextFinger \<noteq> NOBODY
               then set_finger nextFinger (\<lambda>fs. fs\<lparr>prevFingerInPolyGroup := prevFinger\<rparr>) c else c);
          (c, fingerToTurnOn) =
            (if finger = currentFinger then
               (let c = set_poly pg (\<lambda>ps. ps\<lparr>currentFingerInPolyGroup := prevFinger\<rparr>) c;
                    c = (if prevFinger \<noteq> NOBODY
                         then set_finger prevFinger (\<lambda>fs. fs\<lparr>isSupressed := FALSE\<rparr>) c else c)
                in (c, prevFinger))
             else (c, NOBODY));
          c = set_finger finger (\<lambda>fs. fs\<lparr>prevFingerInPolyGroup := NOBODY\<rparr>) c;
          c = set_finger finger (\<lambda>fs. fs\<lparr>nextFingerInPolyGroup := NOBODY\<rparr>) c;
          c = set_finger finger (\<lambda>fs. fs\<lparr>polyGroup := NOBODY\<rparr>) c
      in (c, fingerToTurnOn))"

subsection \<open>Finger down\<close>

definition Fretless_beginDown :: "Fretless_context \<Rightarrow> int \<Rightarrow> Fretless_context option" where
  "Fretless_beginDown ctx finger =
     (let c = STATECHECK ctx;
          c = FINGERCHECK finger c;
          c = (if isOn (fingers c finger) = TRUE
               then fail ''finger %d: Fretless_down && fsPtr->isOn == TRUE'' c else c);
          c = set_finger finger (\<lambda>fs. fs\<lparr>isOn := TRUE\<rparr>) c
      in case Fretless_allocChannel c finger of
           None \<Rightarrow> None
         | Some (c, ch) \<Rightarrow> Some (set_finger finger (\<lambda>fs. fs\<lparr>channel := ch\<rparr>) c))"

text \<open>\<^verbatim>\<open>Fretless_endDown\<close> and \<^verbatim>\<open>Fretless_up\<close> are long; each is written as the
  sequence of its blocks, in the order of the source, one definition per block.\<close>

text \<open>\<^verbatim>\<open>Fretless_endDown\<close>, the four macros and the check that the finger is on.\<close>

definition Fretless_endDown_check ::
  "Fretless_context \<Rightarrow> int \<Rightarrow> real \<Rightarrow> int \<Rightarrow> Fretless_context" where
  "Fretless_endDown_check ctx finger fnote pg =
     (let c = STATECHECK ctx;
          c = FINGERCHECK finger c;
          c = POLYCHECK pg c;
          c = FNOTECHECK fnote c;
          c = (if isOn (fingers c finger) = FALSE
               then fail ''finger %d: Fretless_down && fsPtr->isOn == FALSE'' c else c)
      in c)"

text \<open>The finger takes its velocity, poly group, note and bend; both counts go up.\<close>

definition Fretless_endDown_store ::
  "Fretless_context \<Rightarrow> int \<Rightarrow> real \<Rightarrow> int \<Rightarrow> real \<Rightarrow> Fretless_context" where
  "Fretless_endDown_store ctx finger fnote pg vel =
     (let c = set_finger finger (\<lambda>fs. fs\<lparr>velocity := Fretless_limitVal 1 (c_int (vel * 127)) 127\<rparr>) ctx;
          c = set_finger finger (\<lambda>fs. fs\<lparr>polyGroup := pg\<rparr>) c;
          (n, b) = Fretless_fnoteToNoteBendPair c fnote;
          c = set_finger finger (\<lambda>fs. fs\<lparr>note := n, bend := b\<rparr>) c;
          c = c\<lparr>fingersDownCount := fingersDownCount c + 1\<rparr>;
          c = set_downCount (note (fingers c finger)) (channel (fingers c finger))
                (noteChannelDownCount c (note (fingers c finger)) (channel (fingers c finger)) + 1) c
      in c)"

text \<open>\<^verbatim>\<open>Note-On\<close> with velocity 0 on (note, channel), and the raw balance of the pair
  goes down: the three \<^verbatim>\<open>midiPutch\<close> calls and the decrement that stand together in
  \<^verbatim>\<open>Fretless_endDown\<close> (twice) and \<^verbatim>\<open>Fretless_up\<close>.\<close>

definition noteOff :: "int \<Rightarrow> Fretless_context \<Rightarrow> Fretless_context" where
  "noteOff finger ctx =
     (let c = midiPutch (MIDI_ON + channel (fingers ctx finger)) ctx;
          c = midiPutch (note (fingers c finger)) c;
          c = midiPutch 0 c;
          c = set_rawBalance (note (fingers c finger)) (channel (fingers c finger))
                (noteChannelDownRawBalance c (note (fingers c finger)) (channel (fingers c finger)) - 1) c
      in c)"

text \<open>\<^verbatim>\<open>Note-On\<close> with the finger's velocity on its (note, channel), and the raw balance
  of the pair goes up.\<close>

definition noteOn :: "int \<Rightarrow> Fretless_context \<Rightarrow> Fretless_context" where
  "noteOn finger ctx =
     (let c = midiPutch (MIDI_ON + channel (fingers ctx finger)) ctx;
          c = midiPutch (note (fingers c finger)) c;
          c = midiPutch (velocity (fingers c finger)) c;
          c = set_rawBalance (note (fingers c finger)) (channel (fingers c finger))
                (noteChannelDownRawBalance c (note (fingers c finger)) (channel (fingers c finger)) + 1) c
      in c)"

text \<open>"Only send note off before on if there is more than one note residing here".\<close>

definition Fretless_endDown_preOff :: "Fretless_context \<Rightarrow> int \<Rightarrow> Fretless_context" where
  "Fretless_endDown_preOff ctx finger =
     (if isSupressed (fingers ctx finger) = FALSE then
        (if noteChannelDownCount ctx (note (fingers ctx finger)) (channel (fingers ctx finger)) > 1
         then noteOff finger ctx else ctx)
      else ctx)"

definition Fretless_endDown_current :: "Fretless_context \<Rightarrow> int \<Rightarrow> Fretless_context" where
  "Fretless_endDown_current ctx finger =
     (if finger \<noteq> currentFingerInChannel (channels ctx (channel (fingers ctx finger)))
      then fail ''finger %d should be current in channel because it's note down'' ctx else ctx)"

text \<open>The finger that \<^verbatim>\<open>Fretless_link\<close> suppressed is turned off.\<close>

definition Fretless_endDown_turnOff :: "Fretless_context \<Rightarrow> int \<Rightarrow> int \<Rightarrow> Fretless_context" where
  "Fretless_endDown_turnOff ctx fingerTurningOff legato =
     (if fingerTurningOff \<noteq> NOBODY then
        (let c = (if isOn (fingers ctx fingerTurningOff) = FALSE
                  then fail ''turningOffPtr->isOn should be on'' ctx else ctx);
             c = (if isSupressed (fingers c fingerTurningOff) = FALSE
                  then fail ''turningOffPtr->isSupressed should be supressed'' c else c);
             c = (if legato = 2 then Fretless_noteTie c fingerTurningOff else c)
         in noteOff fingerTurningOff c)
      else ctx)"

definition Fretless_endDown_noteOn :: "Fretless_context \<Rightarrow> int \<Rightarrow> Fretless_context" where
  "Fretless_endDown_noteOn ctx finger =
     (let c = noteOn finger ctx
      in if noteChannelDownRawBalance c (note (fingers c finger)) (channel (fingers c finger)) > 1
         then logger ''we sent out a doubled note on down ch%d n%d'' c else c)"

definition Fretless_endDown ::
  "Fretless_context \<Rightarrow> int \<Rightarrow> real \<Rightarrow> int \<Rightarrow> real \<Rightarrow> int \<Rightarrow> Fretless_context" where
  "Fretless_endDown ctx finger fnote pg vel legato =
     (let c = Fretless_endDown_check ctx finger fnote pg;
          c = Fretless_endDown_store c finger fnote pg vel;
          c = Fretless_endDown_preOff c finger;
          (c, fingerTurningOff) = Fretless_link c finger;
          c = Fretless_setCurrentBend c finger;
          c = Fretless_endDown_current c finger;
          c = Fretless_endDown_turnOff c fingerTurningOff legato
      in Fretless_endDown_noteOn c finger)"

subsection \<open>Self test and recovery\<close>

text \<open>The bodies of the loops of \<^verbatim>\<open>Fretless_selfTest\<close>; the flag is the local \<^verbatim>\<open>passed\<close>.\<close>

definition selfTest_note :: "int \<Rightarrow> int \<Rightarrow> bool \<times> Fretless_context \<Rightarrow> bool \<times> Fretless_context" where
  "selfTest_note c n = (\<lambda>(ok, ctx).
     (let (ok, ctx) =
            (if noteChannelDownCount ctx n c \<noteq> 0
             then (False, fail ''Fretless_state.noteChannelDownCount[0x%d][0x%d] == %d'' ctx)
             else (ok, ctx))
      in if noteChannelDownRawBalance ctx n c \<noteq> 0 then
           (if noteChannelDownRawBalance ctx n c < 0
            then (ok, logger ''ctxp->noteChannelDownRawBalance[%2x][%2x] == %d'' (set_rawBalance n c 0 ctx))
            else (False, fail ''Fretless_state.noteChannelDownRawBalance[0x%2x][0x%2x] == %d'' ctx))
         else (ok, ctx)))"

definition selfTest_channel :: "int \<Rightarrow> bool \<times> Fretless_context \<Rightarrow> bool \<times> Fretless_context" where
  "selfTest_channel c = (\<lambda>(ok, ctx).
     (let (ok, ctx) =
            (if useCount (channels ctx c) \<noteq> 0
             then (False, fail ''%d: Fretless_selfTest() Fretless_state.fingersDownCount==0 && useCount != 0'' ctx)
             else (ok, ctx));
          (ok, ctx) = fold (selfTest_note c) [0..NOTEMAX - 1] (ok, ctx)
      in if currentFingerInChannel (channels ctx c) \<noteq> NOBODY
         then (False, fail ''ctxp->channels[0x%2x].currentFingerInChannel != NOBODY'' ctx)
         else (ok, ctx)))"

definition selfTest_poly :: "int \<Rightarrow> bool \<times> Fretless_context \<Rightarrow> bool \<times> Fretless_context" where
  "selfTest_poly p = (\<lambda>(ok, ctx).
     if currentFingerInPolyGroup (polys ctx p) \<noteq> NOBODY
     then (False, fail ''poly group useCount is wrong'' ctx)
     else (ok, ctx))"

definition selfTest_finger :: "int \<Rightarrow> bool \<times> Fretless_context \<Rightarrow> bool \<times> Fretless_context" where
  "selfTest_finger f = (\<lambda>(ok, ctx).
     (let (ok, ctx) =
            (if isOn (fingers ctx f) \<noteq> 0
             then (False, fail ''Fretless_selfTest() Fretless_state.fingers[%d].isOn'' ctx)
             else (ok, ctx));
          (ok, ctx) =
            (if nextFingerInChannel (fingers ctx f) \<noteq> NOBODY
             then (False, fail ''ctxp->fingers[%d].nextFingerInChannel != NOBODY'' ctx)
             else (ok, ctx))
      in if prevFingerInChannel (fingers ctx f) \<noteq> NOBODY
         then (False, fail ''ctxp->fingers[%d].prevFingerInChannel != NOBODY'' ctx)
         else (ok, ctx)))"

definition Fretless_flush :: "Fretless_context \<Rightarrow> Fretless_context" where
  "Fretless_flush ctx = midiFlush ctx"

definition bruteForce_channel :: "int \<Rightarrow> int \<Rightarrow> Fretless_context \<Rightarrow> Fretless_context" where
  "bruteForce_channel n c ctx = midiPutch 0 (midiPutch n (midiPutch (MIDI_ON + c) ctx))"

definition bruteForce_note :: "int \<Rightarrow> Fretless_context \<Rightarrow> Fretless_context" where
  "bruteForce_note n ctx = Fretless_flush (fold (bruteForce_channel n) [0..CHANNELMAX - 1] ctx)"

definition selfTest_checks :: "Fretless_context \<Rightarrow> bool \<times> Fretless_context" where
  "selfTest_checks ctx =
     (let (ok, c) =
            (if fingersDownCount ctx = 0 then
               (let r = fold selfTest_channel [0..CHANNELMAX - 1] (True, ctx);
                    r = fold selfTest_poly [0..POLYMAX - 1] r;
                    r = fold selfTest_finger [0..FINGERMAX - 1] r
                in r)
             else (True, ctx))
      in if fingersDownCount c < 0 then (False, fail ''less than zero fingers count!'' c) else (ok, c))"

definition Fretless_selfTest :: "Fretless_context \<Rightarrow> Fretless_context" where
  "Fretless_selfTest ctx =
     (let (ok, c) = selfTest_checks ctx
      in if ok then passed c
         else Fretless_boot (fold bruteForce_note [0..NOTEMAX - 1] c))"

subsection \<open>Finger up, express, move\<close>

definition Fretless_up_check :: "Fretless_context \<Rightarrow> int \<Rightarrow> Fretless_context" where
  "Fretless_up_check ctx finger =
     (let c = FINGERCHECK finger ctx
      in if isOn (fingers c finger) = FALSE
         then fail ''finger %d: Fretless_up && fsPtr->isOn == FALSE'' c else c)"

text \<open>"Temporarily disable the note if we are overbooking channels".\<close>

definition Fretless_up_count :: "Fretless_context \<Rightarrow> int \<Rightarrow> Fretless_context" where
  "Fretless_up_count ctx finger =
     set_downCount (note (fingers ctx finger)) (channel (fingers ctx finger))
       (noteChannelDownCount ctx (note (fingers ctx finger)) (channel (fingers ctx finger)) - 1) ctx"

definition Fretless_up_off :: "Fretless_context \<Rightarrow> int \<Rightarrow> int \<Rightarrow> int \<Rightarrow> int \<Rightarrow> Fretless_context" where
  "Fretless_up_off ctx finger fingerWasSupressed fingerToTurnOn legato =
     (if fingerWasSupressed = FALSE then
        (if noteChannelDownCount ctx (note (fingers ctx finger)) (channel (fingers ctx finger)) = 0 then
           (let c = (if fingerToTurnOn \<noteq> NOBODY
                     then (if legato > 0 then Fretless_noteTie ctx finger else ctx) else ctx)
            in noteOff finger c)
         else ctx)
      else ctx)"

text \<open>"If we uncovered a note by picking up current note on poly group...".\<close>

definition Fretless_up_turnOn :: "Fretless_context \<Rightarrow> int \<Rightarrow> int \<Rightarrow> int \<Rightarrow> Fretless_context" where
  "Fretless_up_turnOn ctx finger fingerToTurnOn oldVelocity =
     (if fingerToTurnOn \<noteq> NOBODY then
        (let c = (if isOn (fingers ctx fingerToTurnOn) = FALSE
                  then fail ''turningOnPtr->isOn should be on'' ctx else ctx);
             c = (if isSupressed (fingers c fingerToTurnOn) = TRUE
                  then fail ''turningOffPtr->isSupressed should not be supressed'' c else c);
             c = set_channel (channel (fingers c fingerToTurnOn)) (\<lambda>cs. cs\<lparr>lastBend := - 1\<rparr>) c;
             c = Fretless_setCurrentBend c fingerToTurnOn;
             c = set_finger fingerToTurnOn (\<lambda>fs. fs\<lparr>velocity := oldVelocity\<rparr>) c;
             c = noteOn fingerToTurnOn c
         in if noteChannelDownRawBalance c (note (fingers c finger)) (channel (fingers c finger)) > 1
            then logger ''we sent out a doubled note on up ch%d n%d'' c else c)
      else ctx)"

definition Fretless_up_release :: "Fretless_context \<Rightarrow> int \<Rightarrow> Fretless_context" where
  "Fretless_up_release ctx finger =
     (let c = (if noteChannelDownCount ctx (note (fingers ctx finger)) (channel (fingers ctx finger)) < 0
               then fail ''Fretless_state.noteChannelDownCount[%d][%d]== %d'' ctx else ctx);
          c = c\<lparr>fingersDownCount := fingersDownCount c - 1\<rparr>;
          c = (if fingersDownCount c < 0
               then fail ''Fretless_state.fingersDownCount == %d'' c else c);
          c = set_finger finger (\<lambda>fs. fs\<lparr>isOn := FALSE\<rparr>) c;
          c = Fretless_freeChannel c finger;
          c = set_finger finger Fretless_reset_FingerState c
      in c)"

definition Fretless_up :: "Fretless_context \<Rightarrow> int \<Rightarrow> int \<Rightarrow> Fretless_context" where
  "Fretless_up ctx finger legato =
     (let c = Fretless_up_check ctx finger;
          oldVelocity = velocity (fingers c finger);
          fingerWasSupressed = isSupressed (fingers c finger);
          (c, fingerToTurnOn) = Fretless_unlink c finger;
          c = Fretless_up_count c finger;
          c = Fretless_up_off c finger fingerWasSupressed fingerToTurnOn legato;
          c = Fretless_up_turnOn c finger fingerToTurnOn oldVelocity;
          c = Fretless_up_release c finger
      in if fingersDownCount c \<le> 0 then Fretless_selfTest c else c)"

definition Fretless_express :: "Fretless_context \<Rightarrow> int \<Rightarrow> int \<Rightarrow> real \<Rightarrow> Fretless_context" where
  "Fretless_express ctx finger key val =
     (let c = FINGERCHECK finger ctx;
          c = (if isOn (fingers c finger) = FALSE
               then fail ''finger %d: Fretless_express && fsPtr->isOn == FALSE'' c else c);
          c = midiPutch (0xB0 + channel (fingers c finger)) c;
          c = midiPutch (c_mod key 127) c;
          c = midiPutch (c_mod (c_int (val * 127)) 127) c
      in c)"

text \<open>\<^verbatim>\<open>Fretless_move\<close> returns a float; the model returns it beside the context.\<close>

definition Fretless_move ::
  "Fretless_context \<Rightarrow> int \<Rightarrow> real \<Rightarrow> real \<Rightarrow> int \<Rightarrow> (Fretless_context \<times> real) option" where
  "Fretless_move ctx finger fnote vel pg =
     (let c = FINGERCHECK finger ctx;
          c = FNOTECHECK fnote c;
          c = (if isOn (fingers c finger) = FALSE
               then fail ''finger %d: Fretless_move && fsPtr->isOn == FALSE'' c else c);
          (newNote, newBend) = Fretless_fnoteBendFromExisting c fnote (fingers c finger);
          existingPolyGroup = polyGroup (fingers c finger);
          c = (if 0 \<le> pg \<and> pg < FINGERMAX
               then set_finger finger (\<lambda>fs. fs\<lparr>visitingPolyGroup := pg\<rparr>) c else c)
      in if newNote = note (fingers c finger) then
           (let c = set_finger finger (\<lambda>fs. fs\<lparr>bend := newBend\<rparr>) c;
                c = Fretless_setCurrentAftertouch c finger vel;
                c = Fretless_setCurrentBend c finger
            in Some (c, fnote))
         else
           (let c = Fretless_noteTie c finger;
                c = Fretless_up c finger TRUE
            in case Fretless_beginDown c finger of
                 None \<Rightarrow> None
               | Some c \<Rightarrow> Some (Fretless_endDown c finger fnote existingPolyGroup vel TRUE, fnote)))"

subsection \<open>Call sequences\<close>

text \<open>The public operations as values, so that a gesture sequence is a list. A step is
  \<open>None\<close> when the call does not return.\<close>

datatype call =
    BeginDown int
  | EndDown int real int real int
  | Up int int
  | Move int real real int
  | Express int int real
  | FlushCall
  | Boot
  | SetSupressBends int
  | SetChannelBase int
  | SetChannelSpan int
  | SetChannelBendSemis int

fun step :: "Fretless_context \<Rightarrow> call \<Rightarrow> Fretless_context option" where
  "step ctx (BeginDown f) = Fretless_beginDown ctx f"
| "step ctx (EndDown f fnote pg vel legato) = Some (Fretless_endDown ctx f fnote pg vel legato)"
| "step ctx (Up f legato) = Some (Fretless_up ctx f legato)"
| "step ctx (Move f fnote vel pg) = map_option fst (Fretless_move ctx f fnote vel pg)"
| "step ctx (Express f key val) = Some (Fretless_express ctx f key val)"
| "step ctx FlushCall = Some (Fretless_flush ctx)"
| "step ctx Boot = Some (Fretless_boot ctx)"
| "step ctx (SetSupressBends s) = Some (Fretless_setMidiHintSupressBends ctx s)"
| "step ctx (SetChannelBase b) = Some (Fretless_setMidiHintChannelBase ctx b)"
| "step ctx (SetChannelSpan sp) = Some (Fretless_setMidiHintChannelSpan ctx sp)"
| "step ctx (SetChannelBendSemis sm) = Some (Fretless_setMidiHintChannelBendSemis ctx sm)"

fun run :: "Fretless_context \<Rightarrow> call list \<Rightarrow> Fretless_context option" where
  "run ctx [] = Some ctx"
| "run ctx (x # xs) = (case step ctx x of None \<Rightarrow> None | Some c \<Rightarrow> run c xs)"

text \<open>The contract of a call, as the spec states it: the arguments are in range, a
  finger goes \<^verbatim>\<open>beginDown\<close>, \<^verbatim>\<open>endDown\<close>, then \<^verbatim>\<open>move\<close> or \<^verbatim>\<open>up\<close>. A finger is between
  \<^verbatim>\<open>beginDown\<close> and \<^verbatim>\<open>endDown\<close> when it is on and has no poly group yet.\<close>

fun legal :: "Fretless_context \<Rightarrow> call \<Rightarrow> bool" where
  "legal ctx (BeginDown f) = (0 \<le> f \<and> f < FINGERMAX \<and> isOn (fingers ctx f) = FALSE)"
| "legal ctx (EndDown f fnote pg vel legato) =
     (0 \<le> f \<and> f < FINGERMAX \<and> isOn (fingers ctx f) = TRUE \<and> polyGroup (fingers ctx f) = NOBODY \<and>
      0 \<le> pg \<and> pg < POLYMAX \<and> - 0.5 \<le> fnote \<and> fnote < 127.5)"
| "legal ctx (Up f legato) =
     (0 \<le> f \<and> f < FINGERMAX \<and> isOn (fingers ctx f) = TRUE \<and> polyGroup (fingers ctx f) \<noteq> NOBODY)"
| "legal ctx (Move f fnote vel pg) =
     (0 \<le> f \<and> f < FINGERMAX \<and> isOn (fingers ctx f) = TRUE \<and> polyGroup (fingers ctx f) \<noteq> NOBODY \<and>
      - 0.5 \<le> fnote \<and> fnote < 127.5)"
| "legal ctx (Express f key val) = (0 \<le> f \<and> f < FINGERMAX \<and> isOn (fingers ctx f) = TRUE)"
| "legal ctx FlushCall = True"
| "legal ctx Boot = True"
| "legal ctx (SetSupressBends s) = True"
| "legal ctx (SetChannelBase b) = (0 \<le> b \<and> b < CHANNELMAX)"
| "legal ctx (SetChannelSpan sp) = (1 \<le> sp \<and> sp \<le> CHANNELMAX)"
| "legal ctx (SetChannelBendSemis sm) = (1 \<le> sm \<and> sm \<le> 24)"

text \<open>Every call of the list is legal in the context it is made in.\<close>

fun legal_run :: "Fretless_context \<Rightarrow> call list \<Rightarrow> bool" where
  "legal_run ctx [] = True"
| "legal_run ctx (x # xs) =
     (legal ctx x \<and> (case step ctx x of None \<Rightarrow> True | Some c \<Rightarrow> legal_run c xs))"

subsection \<open>Vocabulary of the claims\<close>

text \<open>The hints in the ranges the spec gives them.\<close>

definition hints_ok :: "Fretless_context \<Rightarrow> bool" where
  "hints_ok ctx \<longleftrightarrow>
     0 \<le> channelBase ctx \<and> channelBase ctx \<le> 15 \<and>
     1 \<le> channelSpan ctx \<and> channelSpan ctx \<le> 16 \<and>
     channelBase ctx + channelSpan ctx \<le> 16 \<and>
     1 \<le> channelBendSemis ctx \<and> channelBendSemis ctx \<le> 24"

text \<open>The fingers that claim (note \<open>n\<close>, channel \<open>c\<close>) as the spec's P2 counts them: on
  and not suppressed.\<close>

definition soundingFingers :: "Fretless_context \<Rightarrow> int \<Rightarrow> int \<Rightarrow> int list" where
  "soundingFingers ctx n c =
     filter (\<lambda>f. isOn (fingers ctx f) \<noteq> 0 \<and> isSupressed (fingers ctx f) = 0 \<and>
                 note (fingers ctx f) = n \<and> channel (fingers ctx f) = c)
       [0..FINGERMAX - 1]"

text \<open>The fingers that claim (note \<open>n\<close>, channel \<open>c\<close>) as the code counts them: on, with
  \<^verbatim>\<open>endDown\<close> done (the finger has its poly group), suppressed or not.\<close>

definition downFingers :: "Fretless_context \<Rightarrow> int \<Rightarrow> int \<Rightarrow> int list" where
  "downFingers ctx n c =
     filter (\<lambda>f. isOn (fingers ctx f) \<noteq> 0 \<and> polyGroup (fingers ctx f) \<noteq> NOBODY \<and>
                 note (fingers ctx f) = n \<and> channel (fingers ctx f) = c)
       [0..FINGERMAX - 1]"

text \<open>A booted context with no finger down: what \<^verbatim>\<open>Fretless_boot\<close> leaves, and what a
  passed \<^verbatim>\<open>Fretless_selfTest\<close> has checked. The last bend and aftertouch of a channel are
  free.\<close>

definition idle :: "Fretless_context \<Rightarrow> bool" where
  "idle ctx \<longleftrightarrow>
     ctxState ctx = CTXSTATE_BOOTED \<and> fingersDownCount ctx = 0 \<and>
     0 \<le> lastAllocatedChannel ctx \<and> lastAllocatedChannel ctx < CHANNELMAX \<and>
     list_all (\<lambda>f. fingers ctx f = Fretless_reset_FingerState (fingers ctx f)) [0..FINGERMAX - 1] \<and>
     list_all (\<lambda>c. useCount (channels ctx c) = 0 \<and> currentFingerInChannel (channels ctx c) = NOBODY \<and>
                    list_all (\<lambda>n. noteChannelDownCount ctx n c = 0 \<and>
                                   noteChannelDownRawBalance ctx n c = 0) [0..NOTEMAX - 1])
       [0..CHANNELMAX - 1] \<and>
     list_all (\<lambda>p. currentFingerInPolyGroup (polys ctx p) = NOBODY) [0..POLYMAX - 1]"

text \<open>The Note-On messages of a byte stream, as (channel, note, velocity): a status byte
  \<^verbatim>\<open>0x9c\<close> and its two data bytes. Data bytes are below \<^verbatim>\<open>0x80\<close>, so they are no status.\<close>

fun noteOns :: "8 word list \<Rightarrow> (8 word \<times> 8 word \<times> 8 word) list" where
  "noteOns (s # n # v # bs) =
     (if s AND 0xF0 = 0x90 then (s AND 0x0F, n, v) # noteOns bs else noteOns (n # v # bs))"
| "noteOns bs = []"

text \<open>The bytes of a stream that start a Pitch-Bend message (status \<^verbatim>\<open>0xEc\<close>).\<close>

definition bendStatusBytes :: "8 word list \<Rightarrow> 8 word list" where
  "bendStatusBytes bs = filter (\<lambda>b. b AND 0xF0 = 0xE0) bs"

text \<open>The pitch-bend emission rule of \<^verbatim>\<open>Fretless_setCurrentBend\<close>, and the three bytes it
  emits for a finger.\<close>

definition bendDue :: "Fretless_context \<Rightarrow> int \<Rightarrow> bool" where
  "bendDue ctx f \<longleftrightarrow>
     lastBend (channels ctx (channel (fingers ctx f))) \<noteq> bend (fingers ctx f) \<and>
     currentFingerInChannel (channels ctx (channel (fingers ctx f))) = f \<and>
     isOn (fingers ctx f) \<noteq> 0 \<and> supressBends ctx = FALSE"

definition bendEvents :: "int \<Rightarrow> int \<Rightarrow> event list" where
  "bendEvents ch b =
     [Putch (word_of_int (MIDI_BEND + ch)), Putch (word_of_int (b AND 0x7f)),
      Putch (word_of_int (drop_bit 7 b AND 0x7f))]"

text \<open>A block of memory as \<^verbatim>\<open>calloc\<close> would return it: every field zero.\<close>

definition zeroed :: Fretless_context where
  "zeroed =
     \<lparr>fingers = (\<lambda>_. \<lparr>isOn = 0, isSupressed = 0, samplePhase = 0, channel = 0, note = 0, bend = 0,
                       velocity = 0, polyGroup = 0, nextFingerInPolyGroup = 0,
                       prevFingerInPolyGroup = 0, nextFingerInChannel = 0, prevFingerInChannel = 0,
                       visitingPolyGroup = 0\<rparr>),
      channels = (\<lambda>_. \<lparr>lastBend = 0, lastAftertouch = 0, currentFingerInChannel = 0, useCount = 0\<rparr>),
      polys = (\<lambda>_. \<lparr>currentFingerInPolyGroup = 0\<rparr>),
      ctxState = 0, lastAllocatedChannel = 0, fingersDownCount = 0,
      noteChannelDownCount = (\<lambda>_ _. 0), noteChannelDownRawBalance = (\<lambda>_ _. 0),
      channelBase = 0, channelSpan = 0, channelBendSemis = 0, supressBends = 0, trace = []\<rparr>"

text \<open>A block that the allocator hands out again after a context was freed with finger 0
  down: \<^verbatim>\<open>Fretless_init\<close> does not clear it.\<close>

definition recycled :: Fretless_context where
  "recycled = zeroed\<lparr>fingers := (fingers zeroed)(0 := (fingers zeroed 0)\<lparr>isOn := TRUE\<rparr>),
                      ctxState := CTXSTATE_BOOTED\<rparr>"

text \<open>The hints of the spec's end-to-end scenarios, set through the setters on a context
  that \<^verbatim>\<open>Fretless_init\<close> made from the block \<open>mem\<close>, before \<^verbatim>\<open>Fretless_boot\<close>.\<close>

definition scenario_hints :: "Fretless_context \<Rightarrow> Fretless_context" where
  "scenario_hints mem =
     Fretless_setMidiHintSupressBends
       (Fretless_setMidiHintChannelBendSemis
          (Fretless_setMidiHintChannelSpan
             (Fretless_setMidiHintChannelBase (Fretless_init mem) 0) 2) 2) FALSE"

text \<open>Hints that put the span on the channels 3, 4 and 5, set through the setters on a
  zeroed block.\<close>

definition hints_base3_span3 :: Fretless_context where
  "hints_base3_span3 =
     Fretless_setMidiHintChannelSpan (Fretless_setMidiHintChannelBase (Fretless_init zeroed) 3) 3"

section \<open>DeMIDI.c: the inbound decoder\<close>

text \<open>The decoder keeps its state in globals; the record holds them, with their C
  initial values in \<open>DeMIDI_initial\<close>. The calls of the engine callback \<^verbatim>\<open>rawEngine\<close> and of
  \<^verbatim>\<open>printf\<close> are appended to two lists of the state.\<close>

definition S_EXPECT_STATUS :: int where "S_EXPECT_STATUS = 0"
definition S_ON_BYTE_NOTE :: int where "S_ON_BYTE_NOTE = 1"
definition S_ON_BYTE_VOL :: int where "S_ON_BYTE_VOL = 2"
definition S_OFF_BYTE_NOTE :: int where "S_OFF_BYTE_NOTE = 3"
definition S_OFF_BYTE_VOL :: int where "S_OFF_BYTE_VOL = 4"
definition S_BEND_LO :: int where "S_BEND_LO = 5"
definition S_BEND_HI :: int where "S_BEND_HI = 6"
definition S_RPN_LO :: int where "S_RPN_LO = 7"
definition S_RPN_HI :: int where "S_RPN_HI = 8"
definition S_NRPN_LO_KEY :: int where "S_NRPN_LO_KEY = 9"
definition S_NRPN_HI_KEY :: int where "S_NRPN_HI_KEY = 10"
definition S_RPN_VAL :: int where "S_RPN_VAL = 11"
definition S_RPN_LO_KEY :: int where "S_RPN_LO_KEY = 12"
definition S_RPN_HI_KEY :: int where "S_RPN_HI_KEY = 13"
definition S_CH_PRESS :: int where "S_CH_PRESS = 14"
definition S_RPN_11 :: int where "S_RPN_11 = 15"

datatype printed =
    UnrecognizedStatus int
  | IllegalState
  | SkippingData int

record DeMIDI_state =
  expectState :: int
  midiStatus :: int
  midiChannel :: int
  expectDataBytes :: int
  midiNote :: "int \<Rightarrow> int"
  midiVol :: "int \<Rightarrow> int"
  doNoteAttack :: int
  midiExprParm :: int
  midiExpr :: int
  midiPitchBendSemis :: int
  midiBend :: "int \<Rightarrow> int"
  nrpnKeyLo :: int
  nrpnKeyHi :: int
  rpnKeyLo :: int
  rpnKeyHi :: int
  rpnVal :: int
  expectNoteTie :: int
  isRegistered :: int
  engineCalls :: "(int \<times> int \<times> real \<times> real \<times> int \<times> int) list"
  printfs :: "printed list"

definition DeMIDI_initial :: DeMIDI_state where
  "DeMIDI_initial =
     \<lparr>expectState = S_EXPECT_STATUS, midiStatus = 0, midiChannel = 0, expectDataBytes = 0,
      midiNote = (\<lambda>_. 0), midiVol = (\<lambda>_. 0), doNoteAttack = 0, midiExprParm = 0, midiExpr = 0,
      midiPitchBendSemis = 2, midiBend = (\<lambda>_. 0), nrpnKeyLo = 0, nrpnKeyHi = 0, rpnKeyLo = 0,
      rpnKeyHi = 0, rpnVal = 0, expectNoteTie = 0, isRegistered = 0, engineCalls = [], printfs = []\<rparr>"

definition rawEngine ::
  "int \<Rightarrow> int \<Rightarrow> real \<Rightarrow> real \<Rightarrow> int \<Rightarrow> int \<Rightarrow> DeMIDI_state \<Rightarrow> DeMIDI_state" where
  "rawEngine ch attack pitch vol exprParm expr st =
     st\<lparr>engineCalls := engineCalls st @ [(ch, attack, pitch, vol, exprParm, expr)]\<rparr>"

definition computePitch :: "DeMIDI_state \<Rightarrow> int \<Rightarrow> real" where
  "computePitch st ch =
     1.0 * of_int (midiNote st ch) + of_int (midiPitchBendSemis st * (midiBend st ch - 8192)) / 8192.0"

definition computeVol :: "DeMIDI_state \<Rightarrow> int \<Rightarrow> real" where
  "computeVol st ch = of_int (midiVol st ch) / 127.0"

text \<open>The status byte branch of \<^verbatim>\<open>DeMIDI_putch\<close>. The byte is an \<open>8 word\<close>; the masks of
  the C code read the same bits of it whether \<^verbatim>\<open>char\<close> is signed or not.\<close>

definition DeMIDI_status :: "8 word \<Rightarrow> DeMIDI_state \<Rightarrow> DeMIDI_state" where
  "DeMIDI_status c st =
     (let st = st\<lparr>midiStatus := uint (drop_bit 4 (c AND 0xF0))\<rparr>;
          st = st\<lparr>midiChannel := uint (c AND 0x0F)\<rparr>
      in if midiStatus st = 0x08 then st\<lparr>expectState := S_OFF_BYTE_NOTE\<rparr>
         else if midiStatus st = 0x09 then st\<lparr>expectState := S_ON_BYTE_NOTE\<rparr>
         else if midiStatus st = 0x0B then st\<lparr>expectState := S_RPN_LO\<rparr>
         else if midiStatus st = 0x0D then st\<lparr>expectState := S_CH_PRESS\<rparr>
         else if midiStatus st = 0x0E then st\<lparr>expectState := S_BEND_LO\<rparr>
         else st\<lparr>printfs := printfs st @ [UnrecognizedStatus (midiStatus st)]\<rparr>)"

text \<open>The data byte branch: the \<^verbatim>\<open>switch\<close> on \<^verbatim>\<open>expectState\<close>, case by case in the order
  of the source.\<close>

definition DeMIDI_data :: "8 word \<Rightarrow> DeMIDI_state \<Rightarrow> DeMIDI_state" where
  "DeMIDI_data c st =
     (let d = uint (c AND 0x7F); ch = midiChannel st in
      if expectState st = S_ON_BYTE_NOTE then
        st\<lparr>midiNote := (midiNote st)(ch := d), expectState := S_ON_BYTE_VOL\<rparr>
      else if expectState st = S_ON_BYTE_VOL then
        (let st = st\<lparr>midiVol := (midiVol st)(ch := d), expectState := S_ON_BYTE_NOTE\<rparr>
         in rawEngine ch (doNoteAttack st) (computePitch st ch) (computeVol st ch)
              (midiExprParm st) (midiExpr st) st)
      else if expectState st = S_OFF_BYTE_NOTE then
        st\<lparr>midiNote := (midiNote st)(ch := d), expectState := S_OFF_BYTE_NOTE\<rparr>
      else if expectState st = S_OFF_BYTE_VOL then
        (let st = st\<lparr>midiVol := (midiVol st)(ch := 0), expectState := S_OFF_BYTE_NOTE\<rparr>
         in rawEngine ch (doNoteAttack st) (computePitch st ch) 0 (midiExprParm st) (midiExpr st) st)
      else if expectState st = S_BEND_LO then
        st\<lparr>midiBend := (midiBend st)(ch := d), expectState := S_BEND_HI\<rparr>
      else if expectState st = S_BEND_HI then
        (let st = st\<lparr>midiBend := (midiBend st)(ch := push_bit 7 d + midiBend st ch),
                     expectState := S_BEND_LO\<rparr>
         in rawEngine ch (doNoteAttack st) (computePitch st ch) (computeVol st ch)
              (midiExprParm st) (midiExpr st) st)
      else if expectState st = S_RPN_LO then
        (if d = 0x63 then st\<lparr>expectState := S_NRPN_LO_KEY\<rparr>
         else if d = 0x62 then st\<lparr>expectState := S_NRPN_HI_KEY\<rparr>
         else if d = 101 then st\<lparr>expectState := S_RPN_LO_KEY\<rparr>
         else if d = 100 then st\<lparr>expectState := S_RPN_HI_KEY\<rparr>
         else if d = 0x06 then st\<lparr>expectState := S_RPN_VAL\<rparr>
         else if d = 11 then st\<lparr>expectState := S_RPN_11\<rparr>
         else st)
      else if expectState st = S_NRPN_LO_KEY then st\<lparr>isRegistered := 0, nrpnKeyLo := d\<rparr>
      else if expectState st = S_NRPN_HI_KEY then st\<lparr>isRegistered := 0, nrpnKeyHi := d\<rparr>
      else if expectState st = S_RPN_VAL then
        (let st = st\<lparr>rpnVal := d\<rparr>
         in if isRegistered st \<noteq> 0 \<and> rpnKeyLo st = 0 \<and> rpnKeyHi st = 0
            then st\<lparr>midiPitchBendSemis := rpnVal st\<rparr>
            else if isRegistered st = 0 \<and> nrpnKeyLo st = 9 \<and> nrpnKeyHi st = 71
            then rawEngine ch 1 0 0 0 0 st
            else st)
      else if expectState st = S_CH_PRESS then
        (if midiVol st ch \<noteq> 0 then
           (let st = st\<lparr>midiVol := (midiVol st)(ch := d)\<rparr>
            in rawEngine ch 0 (computePitch st ch) (computeVol st ch) (midiExprParm st) (midiExpr st) st)
         else st)
      else if expectState st = S_RPN_LO_KEY then st\<lparr>isRegistered := 1, rpnKeyLo := d\<rparr>
      else if expectState st = S_RPN_HI_KEY then st\<lparr>isRegistered := 1, rpnKeyHi := d\<rparr>
      else if expectState st = S_RPN_11 then st\<lparr>midiExprParm := 11, midiExpr := d\<rparr>
      else if expectState st = S_EXPECT_STATUS then st\<lparr>printfs := printfs st @ [IllegalState]\<rparr>
      else st\<lparr>printfs := printfs st @ [SkippingData (midiStatus st)]\<rparr>)"

definition DeMIDI_putch :: "8 word \<Rightarrow> DeMIDI_state \<Rightarrow> DeMIDI_state" where
  "DeMIDI_putch c st =
     (let st = (if expectState st = S_EXPECT_STATUS
                then fold (\<lambda>i s. s\<lparr>midiBend := (midiBend s)(i := 8192)\<rparr>) [0..FINGERMAX - 1] st
                else st)
      in if c AND 0x80 \<noteq> 0 then DeMIDI_status c st else DeMIDI_data c st)"

text \<open>The decoder fed a byte sequence, first byte first.\<close>

definition DeMIDI_feed :: "8 word list \<Rightarrow> DeMIDI_state \<Rightarrow> DeMIDI_state" where
  "DeMIDI_feed bs st = fold DeMIDI_putch bs st"

section \<open>Closed forms\<close>

text \<open>What the loops of \<^verbatim>\<open>Fretless_boot\<close> and \<^verbatim>\<open>Fretless_setMidiHintChannelBendSemis\<close>
  leave, written without the loops; the lemmas below prove that the loops compute them.\<close>

definition channel0 :: "Fretless_channelState \<Rightarrow> Fretless_channelState" where
  "channel0 cs = cs\<lparr>lastBend := 8192, useCount := 0, currentFingerInChannel := - 1, lastAftertouch := 0\<rparr>"

definition rpn_events :: "int \<Rightarrow> int \<Rightarrow> int \<Rightarrow> event list" where
  "rpn_events base semitones c =
     map (\<lambda>v. Putch (word_of_int v))
       [0xB0 + (base + c), 101, 0, 0xB0 + (base + c), 100, 0, 0xB0 + (base + c), 6, semitones,
        0xB0 + (base + c), 38, 0, 0xB0 + (base + c), 101, 127, 0xB0 + (base + c), 100, 127]"

definition boot_failures :: "Fretless_context \<Rightarrow> event list" where
  "boot_failures ctx =
     (if channelSpan ctx = 0 then [Fail ''Fretless_state.channelSpan == 0''] else []) @
     (if channelBase ctx < 0 then [Fail ''%d: Fretless_state.channelBase < 0''] else []) @
     (if channelBase ctx \<ge> 16 then [Fail ''Fretless_state.channelBase >= CHANNELMAX''] else []) @
     (if channelSpan ctx + channelBase ctx \<ge> 16
      then [Fail ''Fretless_state.channelSpan:%d + Fretless_state.channelBase:%d >= CHANNELMAX''] else []) @
     (if channelBendSemis ctx < 1 \<or> channelBendSemis ctx > 24
      then [Fail ''%d: semitones < 1 || semitones > 24 -- MIDI spec limits to 24''] else [])"

lemmas Fretless_consts =
  FINGERMAX_def NOBODY_def TRUE_def FALSE_def CTXSTATE_INIT_def CTXSTATE_BOOTED_def
  CHANNELMAX_def POLYMAX_def NOTEMAX_def MIDI_ON_def MIDI_BEND_def BENDCENTER_def

lemmas DeMIDI_consts =
  S_EXPECT_STATUS_def S_ON_BYTE_NOTE_def S_ON_BYTE_VOL_def S_OFF_BYTE_NOTE_def S_OFF_BYTE_VOL_def
  S_BEND_LO_def S_BEND_HI_def S_RPN_LO_def S_RPN_HI_def S_NRPN_LO_KEY_def S_NRPN_HI_KEY_def
  S_RPN_VAL_def S_RPN_LO_KEY_def S_RPN_HI_KEY_def S_CH_PRESS_def S_RPN_11_def

declare Fretless_consts [simp]

lemmas prim_defs = midiPutch_def midiFlush_def fail_def logger_def passed_def
  set_finger_def set_channel_def set_poly_def set_downCount_def set_rawBalance_def

lemma sel_midiPutch:
  "fingers (midiPutch v c) = fingers c"
  "channels (midiPutch v c) = channels c"
  "polys (midiPutch v c) = polys c"
  "ctxState (midiPutch v c) = ctxState c"
  "lastAllocatedChannel (midiPutch v c) = lastAllocatedChannel c"
  "fingersDownCount (midiPutch v c) = fingersDownCount c"
  "noteChannelDownCount (midiPutch v c) = noteChannelDownCount c"
  "noteChannelDownRawBalance (midiPutch v c) = noteChannelDownRawBalance c"
  "channelBase (midiPutch v c) = channelBase c"
  "channelSpan (midiPutch v c) = channelSpan c"
  "channelBendSemis (midiPutch v c) = channelBendSemis c"
  "supressBends (midiPutch v c) = supressBends c"
  "trace (midiPutch v c) = trace c @ [Putch (word_of_int v)]"
  by (simp_all add: midiPutch_def)

lemma sel_midiFlush:
  "fingers (midiFlush c) = fingers c"
  "channels (midiFlush c) = channels c"
  "polys (midiFlush c) = polys c"
  "ctxState (midiFlush c) = ctxState c"
  "lastAllocatedChannel (midiFlush c) = lastAllocatedChannel c"
  "fingersDownCount (midiFlush c) = fingersDownCount c"
  "noteChannelDownCount (midiFlush c) = noteChannelDownCount c"
  "noteChannelDownRawBalance (midiFlush c) = noteChannelDownRawBalance c"
  "channelBase (midiFlush c) = channelBase c"
  "channelSpan (midiFlush c) = channelSpan c"
  "channelBendSemis (midiFlush c) = channelBendSemis c"
  "supressBends (midiFlush c) = supressBends c"
  "trace (midiFlush c) = trace c @ [Flush]"
  by (simp_all add: midiFlush_def)

lemma sel_fail:
  "fingers (fail m c) = fingers c"
  "channels (fail m c) = channels c"
  "polys (fail m c) = polys c"
  "ctxState (fail m c) = ctxState c"
  "lastAllocatedChannel (fail m c) = lastAllocatedChannel c"
  "fingersDownCount (fail m c) = fingersDownCount c"
  "noteChannelDownCount (fail m c) = noteChannelDownCount c"
  "noteChannelDownRawBalance (fail m c) = noteChannelDownRawBalance c"
  "channelBase (fail m c) = channelBase c"
  "channelSpan (fail m c) = channelSpan c"
  "channelBendSemis (fail m c) = channelBendSemis c"
  "supressBends (fail m c) = supressBends c"
  "trace (fail m c) = trace c @ [Fail m]"
  by (simp_all add: fail_def)

lemma sel_logger:
  "fingers (logger m c) = fingers c"
  "channels (logger m c) = channels c"
  "polys (logger m c) = polys c"
  "ctxState (logger m c) = ctxState c"
  "lastAllocatedChannel (logger m c) = lastAllocatedChannel c"
  "fingersDownCount (logger m c) = fingersDownCount c"
  "noteChannelDownCount (logger m c) = noteChannelDownCount c"
  "noteChannelDownRawBalance (logger m c) = noteChannelDownRawBalance c"
  "channelBase (logger m c) = channelBase c"
  "channelSpan (logger m c) = channelSpan c"
  "channelBendSemis (logger m c) = channelBendSemis c"
  "supressBends (logger m c) = supressBends c"
  "trace (logger m c) = trace c @ [Logger m]"
  by (simp_all add: logger_def)

lemma sel_passed:
  "fingers (passed c) = fingers c"
  "channels (passed c) = channels c"
  "polys (passed c) = polys c"
  "ctxState (passed c) = ctxState c"
  "lastAllocatedChannel (passed c) = lastAllocatedChannel c"
  "fingersDownCount (passed c) = fingersDownCount c"
  "noteChannelDownCount (passed c) = noteChannelDownCount c"
  "noteChannelDownRawBalance (passed c) = noteChannelDownRawBalance c"
  "channelBase (passed c) = channelBase c"
  "channelSpan (passed c) = channelSpan c"
  "channelBendSemis (passed c) = channelBendSemis c"
  "supressBends (passed c) = supressBends c"
  "trace (passed c) = trace c @ [Passed]"
  by (simp_all add: passed_def)

lemma sel_set_finger:
  "fingers (set_finger f g c) = (fingers c)(f := g (fingers c f))"
  "channels (set_finger f g c) = channels c"
  "polys (set_finger f g c) = polys c"
  "ctxState (set_finger f g c) = ctxState c"
  "lastAllocatedChannel (set_finger f g c) = lastAllocatedChannel c"
  "fingersDownCount (set_finger f g c) = fingersDownCount c"
  "noteChannelDownCount (set_finger f g c) = noteChannelDownCount c"
  "noteChannelDownRawBalance (set_finger f g c) = noteChannelDownRawBalance c"
  "channelBase (set_finger f g c) = channelBase c"
  "channelSpan (set_finger f g c) = channelSpan c"
  "channelBendSemis (set_finger f g c) = channelBendSemis c"
  "supressBends (set_finger f g c) = supressBends c"
  "trace (set_finger f g c) = trace c"
  by (simp_all add: set_finger_def)

lemma sel_set_channel:
  "fingers (set_channel ch g c) = fingers c"
  "channels (set_channel ch g c) = (channels c)(ch := g (channels c ch))"
  "polys (set_channel ch g c) = polys c"
  "ctxState (set_channel ch g c) = ctxState c"
  "lastAllocatedChannel (set_channel ch g c) = lastAllocatedChannel c"
  "fingersDownCount (set_channel ch g c) = fingersDownCount c"
  "noteChannelDownCount (set_channel ch g c) = noteChannelDownCount c"
  "noteChannelDownRawBalance (set_channel ch g c) = noteChannelDownRawBalance c"
  "channelBase (set_channel ch g c) = channelBase c"
  "channelSpan (set_channel ch g c) = channelSpan c"
  "channelBendSemis (set_channel ch g c) = channelBendSemis c"
  "supressBends (set_channel ch g c) = supressBends c"
  "trace (set_channel ch g c) = trace c"
  by (simp_all add: set_channel_def)

lemma sel_set_poly:
  "fingers (set_poly p g c) = fingers c"
  "channels (set_poly p g c) = channels c"
  "polys (set_poly p g c) = (polys c)(p := g (polys c p))"
  "ctxState (set_poly p g c) = ctxState c"
  "lastAllocatedChannel (set_poly p g c) = lastAllocatedChannel c"
  "fingersDownCount (set_poly p g c) = fingersDownCount c"
  "noteChannelDownCount (set_poly p g c) = noteChannelDownCount c"
  "noteChannelDownRawBalance (set_poly p g c) = noteChannelDownRawBalance c"
  "channelBase (set_poly p g c) = channelBase c"
  "channelSpan (set_poly p g c) = channelSpan c"
  "channelBendSemis (set_poly p g c) = channelBendSemis c"
  "supressBends (set_poly p g c) = supressBends c"
  "trace (set_poly p g c) = trace c"
  by (simp_all add: set_poly_def)

lemma sel_set_downCount:
  "fingers (set_downCount n ch v c) = fingers c"
  "channels (set_downCount n ch v c) = channels c"
  "polys (set_downCount n ch v c) = polys c"
  "ctxState (set_downCount n ch v c) = ctxState c"
  "lastAllocatedChannel (set_downCount n ch v c) = lastAllocatedChannel c"
  "fingersDownCount (set_downCount n ch v c) = fingersDownCount c"
  "noteChannelDownCount (set_downCount n ch v c) = (noteChannelDownCount c)(n := (noteChannelDownCount c n)(ch := v))"
  "noteChannelDownRawBalance (set_downCount n ch v c) = noteChannelDownRawBalance c"
  "channelBase (set_downCount n ch v c) = channelBase c"
  "channelSpan (set_downCount n ch v c) = channelSpan c"
  "channelBendSemis (set_downCount n ch v c) = channelBendSemis c"
  "supressBends (set_downCount n ch v c) = supressBends c"
  "trace (set_downCount n ch v c) = trace c"
  by (simp_all add: set_downCount_def)

lemma sel_set_rawBalance:
  "fingers (set_rawBalance n ch v c) = fingers c"
  "channels (set_rawBalance n ch v c) = channels c"
  "polys (set_rawBalance n ch v c) = polys c"
  "ctxState (set_rawBalance n ch v c) = ctxState c"
  "lastAllocatedChannel (set_rawBalance n ch v c) = lastAllocatedChannel c"
  "fingersDownCount (set_rawBalance n ch v c) = fingersDownCount c"
  "noteChannelDownCount (set_rawBalance n ch v c) = noteChannelDownCount c"
  "noteChannelDownRawBalance (set_rawBalance n ch v c) = (noteChannelDownRawBalance c)(n := (noteChannelDownRawBalance c n)(ch := v))"
  "channelBase (set_rawBalance n ch v c) = channelBase c"
  "channelSpan (set_rawBalance n ch v c) = channelSpan c"
  "channelBendSemis (set_rawBalance n ch v c) = channelBendSemis c"
  "supressBends (set_rawBalance n ch v c) = supressBends c"
  "trace (set_rawBalance n ch v c) = trace c"
  by (simp_all add: set_rawBalance_def)

lemmas sel_prims = sel_midiPutch sel_midiFlush sel_fail sel_logger sel_passed sel_set_finger sel_set_channel sel_set_poly sel_set_downCount sel_set_rawBalance

lemma sel_if:
  "fingers (if b then c else c') = (if b then fingers c else fingers c')"
  "channels (if b then c else c') = (if b then channels c else channels c')"
  "polys (if b then c else c') = (if b then polys c else polys c')"
  "ctxState (if b then c else c') = (if b then ctxState c else ctxState c')"
  "lastAllocatedChannel (if b then c else c') = (if b then lastAllocatedChannel c else lastAllocatedChannel c')"
  "fingersDownCount (if b then c else c') = (if b then fingersDownCount c else fingersDownCount c')"
  "noteChannelDownCount (if b then c else c') = (if b then noteChannelDownCount c else noteChannelDownCount c')"
  "noteChannelDownRawBalance (if b then c else c') = (if b then noteChannelDownRawBalance c else noteChannelDownRawBalance c')"
  "channelBase (if b then c else c') = (if b then channelBase c else channelBase c')"
  "channelSpan (if b then c else c') = (if b then channelSpan c else channelSpan c')"
  "channelBendSemis (if b then c else c') = (if b then channelBendSemis c else channelBendSemis c')"
  "supressBends (if b then c else c') = (if b then supressBends c else supressBends c')"
  "trace (if b then c else c') = (if b then trace c else trace c')"
  by simp_all

lemma fold_boot_note:
  "fold (boot_note c) ns ctx =
     ctx\<lparr>noteChannelDownCount :=
            (\<lambda>n. if n \<in> set ns then (noteChannelDownCount ctx n)(c := 0) else noteChannelDownCount ctx n),
         noteChannelDownRawBalance :=
            (\<lambda>n. if n \<in> set ns then (noteChannelDownRawBalance ctx n)(c := 0)
                 else noteChannelDownRawBalance ctx n)\<rparr>"
proof (induction ns arbitrary: ctx)
  case Nil
  show ?case by simp
next
  case (Cons n ns)
  show ?case
    unfolding fold_Cons o_apply Cons.IH
    by (simp add: boot_note_def prim_defs fun_eq_iff)
qed

lemma fold_boot_channel:
  "fold boot_channel cs ctx =
     ctx\<lparr>channels := (\<lambda>c. if c \<in> set cs then channel0 (channels ctx c) else channels ctx c),
         noteChannelDownCount :=
            (\<lambda>n c. if c \<in> set cs \<and> 0 \<le> n \<and> n \<le> 127 then 0 else noteChannelDownCount ctx n c),
         noteChannelDownRawBalance :=
            (\<lambda>n c. if c \<in> set cs \<and> 0 \<le> n \<and> n \<le> 127 then 0 else noteChannelDownRawBalance ctx n c)\<rparr>"
proof (induction cs arbitrary: ctx)
  case Nil
  show ?case by simp
next
  case (Cons c cs)
  show ?case
    unfolding fold_Cons o_apply Cons.IH
    by (simp add: boot_channel_def fold_boot_note prim_defs fun_eq_iff channel0_def)
qed

lemma fold_boot_finger:
  "fold boot_finger fs ctx =
     ctx\<lparr>fingers := (\<lambda>f. if f \<in> set fs then Fretless_reset_FingerState (fingers ctx f) else fingers ctx f)\<rparr>"
proof (induction fs arbitrary: ctx)
  case Nil
  show ?case by simp
next
  case (Cons c cs)
  show ?case
    unfolding fold_Cons o_apply Cons.IH
    by (simp add: boot_finger_def prim_defs fun_eq_iff Fretless_reset_FingerState_def)
qed

lemma fold_boot_poly:
  "fold boot_poly ps ctx =
     ctx\<lparr>polys := (\<lambda>p. if p \<in> set ps then (polys ctx p)\<lparr>currentFingerInPolyGroup := - 1\<rparr> else polys ctx p)\<rparr>"
proof (induction ps arbitrary: ctx)
  case Nil
  show ?case by simp
next
  case (Cons c cs)
  show ?case
    unfolding fold_Cons o_apply Cons.IH
    by (simp add: boot_poly_def prim_defs fun_eq_iff)
qed


lemma bendSemis_rpn_eq:
  "bendSemis_rpn s c ctx = ctx\<lparr>trace := trace ctx @ rpn_events (channelBase ctx) s c\<rparr>"
  by (simp add: bendSemis_rpn_def rpn_events_def prim_defs Let_def)

lemma fold_bendSemis_rpn:
  "fold (bendSemis_rpn s) cs ctx =
     ctx\<lparr>trace := trace ctx @ concat (map (rpn_events (channelBase ctx) s) cs)\<rparr>"
proof (induction cs arbitrary: ctx)
  case Nil
  show ?case by simp
next
  case (Cons c cs)
  show ?case
    unfolding fold_Cons o_apply Cons.IH
    by (simp add: bendSemis_rpn_eq)
qed

lemma if_fail: "(if b then fail m c else c) = c\<lparr>trace := trace c @ (if b then [Fail m] else [])\<rparr>"
  by (simp add: fail_def)

lemma set_upto_16: "(x \<in> set [0..15]) = (0 \<le> x \<and> x \<le> 15)"
  by simp

lemma Fretless_boot_eq:
  "Fretless_boot ctx =
     ctx\<lparr>fingers := (\<lambda>f. if 0 \<le> f \<and> f \<le> 15 then Fretless_reset_FingerState (fingers ctx f) else fingers ctx f),
         channels := (\<lambda>c. if 0 \<le> c \<and> c \<le> 15 then channel0 (channels ctx c) else channels ctx c),
         polys := (\<lambda>p. if 0 \<le> p \<and> p \<le> 15 then (polys ctx p)\<lparr>currentFingerInPolyGroup := - 1\<rparr> else polys ctx p),
         ctxState := 1,
         lastAllocatedChannel := 0,
         fingersDownCount := 0,
         noteChannelDownCount :=
            (\<lambda>n c. if 0 \<le> c \<and> c \<le> 15 \<and> 0 \<le> n \<and> n \<le> 127 then 0 else noteChannelDownCount ctx n c),
         noteChannelDownRawBalance :=
            (\<lambda>n c. if 0 \<le> c \<and> c \<le> 15 \<and> 0 \<le> n \<and> n \<le> 127 then 0 else noteChannelDownRawBalance ctx n c),
         trace := trace ctx @ boot_failures ctx @
                  concat (map (rpn_events (channelBase ctx) (channelBendSemis ctx)) [0..channelSpan ctx - 1])\<rparr>"
  by (simp add: Fretless_boot_def Fretless_setMidiHintChannelBendSemis_def Let_def if_fail
        fold_boot_channel fold_boot_finger fold_boot_poly fold_bendSemis_rpn boot_failures_def
        split del: if_split cong del: if_weak_cong)

declare Fretless_allocChannel_scan.simps [simp del]

lemma alloc_from_found:
  "Fretless_allocChannel_scan ctx finger l 0 = Some r \<Longrightarrow> Fretless_allocChannel_from ctx finger l = Some r"
  by (subst Fretless_allocChannel_from.simps) simp

lemma allocChannel_first:
  assumes "0 < channelSpan ctx"
    and "useCount (channels ctx (Fretless_allocChannel_candidate ctx 0)) = 0"
  shows "Fretless_allocChannel ctx f =
           Some (Fretless_allocChannel_take ctx f (Fretless_allocChannel_candidate ctx 0),
                 Fretless_allocChannel_candidate ctx 0)"
  unfolding Fretless_allocChannel_def
  by (rule alloc_from_found) (simp add: Fretless_allocChannel_scan.simps[of ctx f 0 0] assms Let_def)

lemma scenario_hints_eq:
  "scenario_hints mem = mem\<lparr>ctxState := 0, channelSpan := 2, channelBase := 0,
         channelBendSemis := 2, supressBends := 0, trace := []\<rparr>"
  by (simp add: scenario_hints_def Fretless_setMidiHintSupressBends_def
        Fretless_setMidiHintChannelBendSemis_def Fretless_setMidiHintChannelSpan_def
        Fretless_setMidiHintChannelBase_def Fretless_init_def Let_def if_fail)

subsection \<open>Channel candidates and idle contexts\<close>

lemmas ev = Let_def sel_prims
lemmas ev_cong = let_weak_cong prod.case_cong_weak option.case_cong_weak

lemma c_mod_bounds:
  assumes "0 < b"
  shows "c_mod a b < b" and "- b < c_mod a b" and "0 \<le> a \<Longrightarrow> 0 \<le> c_mod a b"
    and "a < 0 \<Longrightarrow> a \<le> c_mod a b" and "a < 0 \<Longrightarrow> c_mod a b \<le> 0"
proof -
  define r where "r = \<bar>a\<bar> mod b"
  have m: "0 \<le> r" "r < b" "r \<le> \<bar>a\<bar>"
    using assms by (simp_all add: r_def zmod_le_nonneg_dividend)
  have c: "c_mod a b = sgn a * r"
    using assms by (simp add: c_mod_def r_def)
  show "c_mod a b < b" using m assms unfolding c by (cases "a < 0"; cases "a = 0"; simp)
  show "- b < c_mod a b" using m assms unfolding c by (cases "a < 0"; cases "a = 0"; simp)
  show "0 \<le> a \<Longrightarrow> 0 \<le> c_mod a b" using m unfolding c by (cases "a = 0"; simp)
  show "a < 0 \<Longrightarrow> a \<le> c_mod a b" using m unfolding c by simp
  show "a < 0 \<Longrightarrow> c_mod a b \<le> 0" using m unfolding c by simp
qed

lemma candidate_prims:
  "Fretless_allocChannel_candidate (midiPutch v c) s = Fretless_allocChannel_candidate c s"
  "Fretless_allocChannel_candidate (midiFlush c) s = Fretless_allocChannel_candidate c s"
  "Fretless_allocChannel_candidate (fail m c) s = Fretless_allocChannel_candidate c s"
  "Fretless_allocChannel_candidate (logger m c) s = Fretless_allocChannel_candidate c s"
  "Fretless_allocChannel_candidate (passed c) s = Fretless_allocChannel_candidate c s"
  "Fretless_allocChannel_candidate (set_finger f g c) s = Fretless_allocChannel_candidate c s"
  "Fretless_allocChannel_candidate (set_channel ch h c) s = Fretless_allocChannel_candidate c s"
  "Fretless_allocChannel_candidate (set_poly p k c) s = Fretless_allocChannel_candidate c s"
  "Fretless_allocChannel_candidate (set_downCount n ch x c) s = Fretless_allocChannel_candidate c s"
  "Fretless_allocChannel_candidate (set_rawBalance n ch x c) s = Fretless_allocChannel_candidate c s"
  by (simp_all add: Fretless_allocChannel_candidate_def sel_prims)

lemma candidate_range:
  assumes "hints_ok ctx" and "0 \<le> lastAllocatedChannel ctx" and "0 \<le> s"
  shows "0 \<le> Fretless_allocChannel_candidate ctx s" and "Fretless_allocChannel_candidate ctx s < 16"
proof -
  let ?a = "lastAllocatedChannel ctx + 1 + s - channelBase ctx"
  have sp: "0 < channelSpan ctx" and base: "0 \<le> channelBase ctx"
    and sum: "channelBase ctx + channelSpan ctx \<le> 16"
    using assms(1) by (simp_all add: hints_ok_def)
  have c: "Fretless_allocChannel_candidate ctx s = c_mod ?a (channelSpan ctx) + channelBase ctx"
    by (simp add: Fretless_allocChannel_candidate_def Let_def)
  show "0 \<le> Fretless_allocChannel_candidate ctx s"
  proof (cases "?a < 0")
    case True
    from c_mod_bounds(4)[OF sp True] assms(2,3) show ?thesis unfolding c by linarith
  next
    case False
    then have "0 \<le> ?a" by simp
    from c_mod_bounds(3)[OF sp this] base show ?thesis unfolding c by linarith
  qed
  show "Fretless_allocChannel_candidate ctx s < 16"
    using c_mod_bounds(1)[OF sp, of ?a] sum unfolding c by linarith
qed

lemma idle_iff:
  "idle ctx \<longleftrightarrow>
     ctxState ctx = 1 \<and> fingersDownCount ctx = 0 \<and>
     0 \<le> lastAllocatedChannel ctx \<and> lastAllocatedChannel ctx < 16 \<and>
     (\<forall>f. 0 \<le> f \<and> f < 16 \<longrightarrow> fingers ctx f = Fretless_reset_FingerState (fingers ctx f)) \<and>
     (\<forall>c. 0 \<le> c \<and> c < 16 \<longrightarrow>
          useCount (channels ctx c) = 0 \<and> currentFingerInChannel (channels ctx c) = - 1) \<and>
     (\<forall>n c. 0 \<le> n \<and> n < 128 \<and> 0 \<le> c \<and> c < 16 \<longrightarrow>
          noteChannelDownCount ctx n c = 0 \<and> noteChannelDownRawBalance ctx n c = 0) \<and>
     (\<forall>p. 0 \<le> p \<and> p < 16 \<longrightarrow> currentFingerInPolyGroup (polys ctx p) = - 1)"
  unfolding idle_def list_all_iff by (simp; fastforce)

lemma reset_fixed:
  assumes "fs = Fretless_reset_FingerState fs"
  shows "isOn fs = 0" "isSupressed fs = 0" "samplePhase fs = 0" "channel fs = 0" "note fs = 0"
    "bend fs = 8192" "velocity fs = 0" "polyGroup fs = - 1" "nextFingerInPolyGroup fs = - 1"
    "prevFingerInPolyGroup fs = - 1" "nextFingerInChannel fs = - 1" "prevFingerInChannel fs = - 1"
    "visitingPolyGroup fs = - 1"
  by (subst assms, simp add: Fretless_reset_FingerState_def)+

lemma idle_finger:
  assumes "idle ctx" "0 \<le> f" "f < 16"
  shows "isOn (fingers ctx f) = 0" "isSupressed (fingers ctx f) = 0" "samplePhase (fingers ctx f) = 0"
    "channel (fingers ctx f) = 0" "note (fingers ctx f) = 0"
    "bend (fingers ctx f) = 8192" "velocity (fingers ctx f) = 0" "polyGroup (fingers ctx f) = - 1"
    "nextFingerInPolyGroup (fingers ctx f) = - 1"
    "prevFingerInPolyGroup (fingers ctx f) = - 1" "nextFingerInChannel (fingers ctx f) = - 1"
    "prevFingerInChannel (fingers ctx f) = - 1"
    "visitingPolyGroup (fingers ctx f) = - 1"
  using assms reset_fixed[of "fingers ctx f"] by (simp_all add: idle_iff)

lemma idle_boot:
  assumes "hints_ok ctx"
  shows "idle (Fretless_boot ctx)"
  by (simp add: idle_iff Fretless_boot_eq Fretless_reset_FingerState_def channel0_def)

subsection \<open>The first finger down, and a passed self test\<close>

lemma beginDown_idle:
  assumes i: "idle ctx" and h: "hints_ok ctx" and f: "0 \<le> f" "f < 16"
  shows "Fretless_beginDown ctx f =
           Some ((set_finger f (\<lambda>fs. fs\<lparr>isOn := 1, channel := Fretless_allocChannel_candidate ctx 0\<rparr>)
                   (set_channel (Fretless_allocChannel_candidate ctx 0)
                      (\<lambda>cs. cs\<lparr>useCount := 1, currentFingerInChannel := f\<rparr>) ctx))
                 \<lparr>lastAllocatedChannel := Fretless_allocChannel_candidate ctx 0\<rparr>)"
proof -
  let ?ch = "Fretless_allocChannel_candidate ctx 0"
  have r: "0 \<le> ?ch" "?ch < 16"
    using candidate_range[OF h, of 0] i by (simp_all add: idle_iff)
  have sp: "0 < channelSpan ctx" using h by (simp add: hints_ok_def)
  have u: "useCount (channels ctx ?ch) = 0" "currentFingerInChannel (channels ctx ?ch) = - 1"
    using i r by (simp_all add: idle_iff)
  have st: "ctxState ctx = 1" using i by (simp add: idle_iff)
  show ?thesis
    using f st sp u idle_finger(1)[OF i f]
    apply (simp add: Fretless_beginDown_def STATECHECK_def FINGERCHECK_def ev
      allocChannel_first Fretless_allocChannel_take_def candidate_prims
      cong: ev_cong)
    done
qed

lemma fold_selfTest_note:
  assumes "\<forall>n\<in>set ns. noteChannelDownCount c n ch = 0 \<and> noteChannelDownRawBalance c n ch = 0"
  shows "fold (selfTest_note ch) ns (ok, c) = (ok, c)"
  using assms
proof (induction ns)
  case Nil
  show ?case by simp
next
  case (Cons n ns)
  have "selfTest_note ch n (ok, c) = (ok, c)"
    using Cons.prems by (simp add: selfTest_note_def)
  then show ?case using Cons by simp
qed

lemma fold_selfTest_channel:
  assumes "\<forall>ch\<in>set chs. useCount (channels c ch) = 0 \<and> currentFingerInChannel (channels c ch) = - 1 \<and>
             (\<forall>n. 0 \<le> n \<and> n \<le> 127 \<longrightarrow> noteChannelDownCount c n ch = 0 \<and> noteChannelDownRawBalance c n ch = 0)"
  shows "fold selfTest_channel chs (ok, c) = (ok, c)"
  using assms
proof (induction chs)
  case Nil
  show ?case by simp
next
  case (Cons ch chs)
  have "selfTest_channel ch (ok, c) = (ok, c)"
    using Cons.prems by (simp add: selfTest_channel_def fold_selfTest_note)
  then show ?case using Cons by simp
qed

lemma fold_selfTest_poly:
  assumes "\<forall>p\<in>set ps. currentFingerInPolyGroup (polys c p) = - 1"
  shows "fold selfTest_poly ps (ok, c) = (ok, c)"
  using assms
proof (induction ps)
  case Nil
  show ?case by simp
next
  case (Cons p ps)
  have "selfTest_poly p (ok, c) = (ok, c)"
    using Cons.prems by (simp add: selfTest_poly_def)
  then show ?case using Cons by simp
qed

lemma fold_selfTest_finger:
  assumes "\<forall>f\<in>set fs. isOn (fingers c f) = 0 \<and> nextFingerInChannel (fingers c f) = - 1 \<and>
              prevFingerInChannel (fingers c f) = - 1"
  shows "fold selfTest_finger fs (ok, c) = (ok, c)"
  using assms
proof (induction fs)
  case Nil
  show ?case by simp
next
  case (Cons f fs)
  have "selfTest_finger f (ok, c) = (ok, c)"
    using Cons.prems by (simp add: selfTest_finger_def)
  then show ?case using Cons by simp
qed

lemma selfTest_pass:
  assumes "fingersDownCount c = 0"
    and "\<forall>ch. 0 \<le> ch \<and> ch < 16 \<longrightarrow>
           useCount (channels c ch) = 0 \<and> currentFingerInChannel (channels c ch) = - 1"
    and "\<forall>n ch. 0 \<le> n \<and> n < 128 \<and> 0 \<le> ch \<and> ch < 16 \<longrightarrow>
           noteChannelDownCount c n ch = 0 \<and> noteChannelDownRawBalance c n ch = 0"
    and "\<forall>p. 0 \<le> p \<and> p < 16 \<longrightarrow> currentFingerInPolyGroup (polys c p) = - 1"
    and "\<forall>f. 0 \<le> f \<and> f < 16 \<longrightarrow> isOn (fingers c f) = 0 \<and> nextFingerInChannel (fingers c f) = - 1 \<and>
              prevFingerInChannel (fingers c f) = - 1"
  shows "Fretless_selfTest c = passed c"
proof -
  have "selfTest_checks c = (True, c)"
    using assms
    by (simp add: selfTest_checks_def Let_def fold_selfTest_channel fold_selfTest_poly fold_selfTest_finger)
  then show ?thesis by (simp add: Fretless_selfTest_def)
qed

subsection \<open>The first endDown of a finger\<close>

lemma sel_setCurrentBend:
  "fingers (Fretless_setCurrentBend c f) = fingers c"
  "polys (Fretless_setCurrentBend c f) = polys c"
  "ctxState (Fretless_setCurrentBend c f) = ctxState c"
  "lastAllocatedChannel (Fretless_setCurrentBend c f) = lastAllocatedChannel c"
  "fingersDownCount (Fretless_setCurrentBend c f) = fingersDownCount c"
  "noteChannelDownCount (Fretless_setCurrentBend c f) = noteChannelDownCount c"
  "noteChannelDownRawBalance (Fretless_setCurrentBend c f) = noteChannelDownRawBalance c"
  "channelBase (Fretless_setCurrentBend c f) = channelBase c"
  "channelSpan (Fretless_setCurrentBend c f) = channelSpan c"
  "channelBendSemis (Fretless_setCurrentBend c f) = channelBendSemis c"
  "supressBends (Fretless_setCurrentBend c f) = supressBends c"
  "channels (Fretless_setCurrentBend c f) =
     (channels c)(channel (fingers c f) :=
        (channels c (channel (fingers c f)))
          \<lparr>lastBend := (if bendDue c f then bend (fingers c f)
                        else lastBend (channels c (channel (fingers c f))))\<rparr>)"
  "trace (Fretless_setCurrentBend c f) =
     trace c @ (if bendDue c f then bendEvents (channel (fingers c f)) (bend (fingers c f)) else [])"
  by (simp_all add: Fretless_setCurrentBend_def bendDue_def bendEvents_def Fretless_numTo7BitNums_def
        Let_def sel_prims)

lemma endDown_first:
  fixes c f fnote pg v legato
  defines "n \<equiv> c_int (fnote + 0.5)"
    and "vel \<equiv> Fretless_limitVal 1 (c_int (v * 127)) 127"
    and "ch \<equiv> channel (fingers c f)"
  defines "b \<equiv> c_int (8192 + (fnote - of_int n) * 8192 / of_int (channelBendSemis c))"
  assumes "ctxState c = 1" "0 \<le> f" "f < 16" "0 \<le> pg" "pg < 16" "- 0.5 \<le> fnote" "fnote < 127.5"
    "isOn (fingers c f) = 1" "isSupressed (fingers c f) = 0"
    "currentFingerInPolyGroup (polys c pg) = - 1"
    "currentFingerInChannel (channels c ch) = f"
    "noteChannelDownCount c n ch = 0"
    "noteChannelDownRawBalance c n ch = 0"
  shows "fingers (Fretless_endDown c f fnote pg v legato) =
           (fingers c)(f := (fingers c f)\<lparr>velocity := vel, note := n, bend := b, polyGroup := pg\<rparr>)"
    and "polys (Fretless_endDown c f fnote pg v legato) =
           (polys c)(pg := (polys c pg)\<lparr>currentFingerInPolyGroup := f\<rparr>)"
    and "channels (Fretless_endDown c f fnote pg v legato) =
           (channels c)(ch := (channels c ch)
              \<lparr>lastBend := (if supressBends c = 0 then b else lastBend (channels c ch))\<rparr>)"
    and "noteChannelDownCount (Fretless_endDown c f fnote pg v legato) =
           (noteChannelDownCount c)(n := (noteChannelDownCount c n)(ch := 1))"
    and "noteChannelDownRawBalance (Fretless_endDown c f fnote pg v legato) =
           (noteChannelDownRawBalance c)(n := (noteChannelDownRawBalance c n)(ch := 1))"
    and "fingersDownCount (Fretless_endDown c f fnote pg v legato) = fingersDownCount c + 1"
    and "trace (Fretless_endDown c f fnote pg v legato) =
           trace c @ (if lastBend (channels c ch) \<noteq> b \<and> supressBends c = 0 then bendEvents ch b else []) @
           [Putch (word_of_int (0x90 + ch)), Putch (word_of_int n), Putch (word_of_int vel)]"
  using assms(5-)
  unfolding n_def vel_def ch_def b_def
  by (simp_all add: Fretless_endDown_def Fretless_endDown_check_def Fretless_endDown_store_def
        Fretless_endDown_preOff_def Fretless_endDown_current_def Fretless_endDown_turnOff_def
        Fretless_endDown_noteOn_def noteOn_def Fretless_link_def
        STATECHECK_def FINGERCHECK_def POLYCHECK_def FNOTECHECK_def
        Fretless_fnoteToNoteBendPair_def sel_setCurrentBend bendDue_def
        ev cong: ev_cong)

subsection \<open>Frame lemmas: the fields a function leaves alone\<close>

lemma frame_STATECHECK:
  "fingers (STATECHECK c) = fingers c"
  "channels (STATECHECK c) = channels c"
  "polys (STATECHECK c) = polys c"
  "ctxState (STATECHECK c) = ctxState c"
  "lastAllocatedChannel (STATECHECK c) = lastAllocatedChannel c"
  "fingersDownCount (STATECHECK c) = fingersDownCount c"
  "noteChannelDownCount (STATECHECK c) = noteChannelDownCount c"
  "noteChannelDownRawBalance (STATECHECK c) = noteChannelDownRawBalance c"
  "channelBase (STATECHECK c) = channelBase c"
  "channelSpan (STATECHECK c) = channelSpan c"
  "channelBendSemis (STATECHECK c) = channelBendSemis c"
  "supressBends (STATECHECK c) = supressBends c"
  by (simp_all add: STATECHECK_def Let_def sel_prims split_def)

lemma frame_FINGERCHECK:
  "fingers (FINGERCHECK f c) = fingers c"
  "channels (FINGERCHECK f c) = channels c"
  "polys (FINGERCHECK f c) = polys c"
  "ctxState (FINGERCHECK f c) = ctxState c"
  "lastAllocatedChannel (FINGERCHECK f c) = lastAllocatedChannel c"
  "fingersDownCount (FINGERCHECK f c) = fingersDownCount c"
  "noteChannelDownCount (FINGERCHECK f c) = noteChannelDownCount c"
  "noteChannelDownRawBalance (FINGERCHECK f c) = noteChannelDownRawBalance c"
  "channelBase (FINGERCHECK f c) = channelBase c"
  "channelSpan (FINGERCHECK f c) = channelSpan c"
  "channelBendSemis (FINGERCHECK f c) = channelBendSemis c"
  "supressBends (FINGERCHECK f c) = supressBends c"
  by (simp_all add: FINGERCHECK_def Let_def sel_prims split_def)

lemma frame_POLYCHECK:
  "fingers (POLYCHECK pg c) = fingers c"
  "channels (POLYCHECK pg c) = channels c"
  "polys (POLYCHECK pg c) = polys c"
  "ctxState (POLYCHECK pg c) = ctxState c"
  "lastAllocatedChannel (POLYCHECK pg c) = lastAllocatedChannel c"
  "fingersDownCount (POLYCHECK pg c) = fingersDownCount c"
  "noteChannelDownCount (POLYCHECK pg c) = noteChannelDownCount c"
  "noteChannelDownRawBalance (POLYCHECK pg c) = noteChannelDownRawBalance c"
  "channelBase (POLYCHECK pg c) = channelBase c"
  "channelSpan (POLYCHECK pg c) = channelSpan c"
  "channelBendSemis (POLYCHECK pg c) = channelBendSemis c"
  "supressBends (POLYCHECK pg c) = supressBends c"
  by (simp_all add: POLYCHECK_def Let_def sel_prims split_def)

lemma frame_FNOTECHECK:
  "fingers (FNOTECHECK x c) = fingers c"
  "channels (FNOTECHECK x c) = channels c"
  "polys (FNOTECHECK x c) = polys c"
  "ctxState (FNOTECHECK x c) = ctxState c"
  "lastAllocatedChannel (FNOTECHECK x c) = lastAllocatedChannel c"
  "fingersDownCount (FNOTECHECK x c) = fingersDownCount c"
  "noteChannelDownCount (FNOTECHECK x c) = noteChannelDownCount c"
  "noteChannelDownRawBalance (FNOTECHECK x c) = noteChannelDownRawBalance c"
  "channelBase (FNOTECHECK x c) = channelBase c"
  "channelSpan (FNOTECHECK x c) = channelSpan c"
  "channelBendSemis (FNOTECHECK x c) = channelBendSemis c"
  "supressBends (FNOTECHECK x c) = supressBends c"
  by (simp_all add: FNOTECHECK_def Let_def sel_prims split_def)

lemma frame_noteTie:
  "fingers (Fretless_noteTie c f) = fingers c"
  "channels (Fretless_noteTie c f) = channels c"
  "polys (Fretless_noteTie c f) = polys c"
  "ctxState (Fretless_noteTie c f) = ctxState c"
  "lastAllocatedChannel (Fretless_noteTie c f) = lastAllocatedChannel c"
  "fingersDownCount (Fretless_noteTie c f) = fingersDownCount c"
  "noteChannelDownCount (Fretless_noteTie c f) = noteChannelDownCount c"
  "noteChannelDownRawBalance (Fretless_noteTie c f) = noteChannelDownRawBalance c"
  "channelBase (Fretless_noteTie c f) = channelBase c"
  "channelSpan (Fretless_noteTie c f) = channelSpan c"
  "channelBendSemis (Fretless_noteTie c f) = channelBendSemis c"
  "supressBends (Fretless_noteTie c f) = supressBends c"
  by (simp_all add: Fretless_noteTie_def Fretless_numTo7BitNums_def Let_def sel_prims split_def)

lemma frame_noteOn:
  "fingers (noteOn f c) = fingers c"
  "channels (noteOn f c) = channels c"
  "polys (noteOn f c) = polys c"
  "ctxState (noteOn f c) = ctxState c"
  "lastAllocatedChannel (noteOn f c) = lastAllocatedChannel c"
  "fingersDownCount (noteOn f c) = fingersDownCount c"
  "noteChannelDownCount (noteOn f c) = noteChannelDownCount c"
  "channelBase (noteOn f c) = channelBase c"
  "channelSpan (noteOn f c) = channelSpan c"
  "channelBendSemis (noteOn f c) = channelBendSemis c"
  "supressBends (noteOn f c) = supressBends c"
  by (simp_all add: noteOn_def Let_def sel_prims split_def)

lemma frame_noteOff:
  "fingers (noteOff f c) = fingers c"
  "channels (noteOff f c) = channels c"
  "polys (noteOff f c) = polys c"
  "ctxState (noteOff f c) = ctxState c"
  "lastAllocatedChannel (noteOff f c) = lastAllocatedChannel c"
  "fingersDownCount (noteOff f c) = fingersDownCount c"
  "noteChannelDownCount (noteOff f c) = noteChannelDownCount c"
  "channelBase (noteOff f c) = channelBase c"
  "channelSpan (noteOff f c) = channelSpan c"
  "channelBendSemis (noteOff f c) = channelBendSemis c"
  "supressBends (noteOff f c) = supressBends c"
  by (simp_all add: noteOff_def Let_def sel_prims split_def)

lemma frame_setCurrentAftertouch:
  "polys (Fretless_setCurrentAftertouch c f v) = polys c"
  "ctxState (Fretless_setCurrentAftertouch c f v) = ctxState c"
  "lastAllocatedChannel (Fretless_setCurrentAftertouch c f v) = lastAllocatedChannel c"
  "fingersDownCount (Fretless_setCurrentAftertouch c f v) = fingersDownCount c"
  "noteChannelDownCount (Fretless_setCurrentAftertouch c f v) = noteChannelDownCount c"
  "noteChannelDownRawBalance (Fretless_setCurrentAftertouch c f v) = noteChannelDownRawBalance c"
  "channelBase (Fretless_setCurrentAftertouch c f v) = channelBase c"
  "channelSpan (Fretless_setCurrentAftertouch c f v) = channelSpan c"
  "channelBendSemis (Fretless_setCurrentAftertouch c f v) = channelBendSemis c"
  "supressBends (Fretless_setCurrentAftertouch c f v) = supressBends c"
  by (simp_all add: Fretless_setCurrentAftertouch_def Let_def sel_prims split_def)

lemma frame_link:
  "channels (fst (Fretless_link c f)) = channels c"
  "ctxState (fst (Fretless_link c f)) = ctxState c"
  "lastAllocatedChannel (fst (Fretless_link c f)) = lastAllocatedChannel c"
  "fingersDownCount (fst (Fretless_link c f)) = fingersDownCount c"
  "noteChannelDownCount (fst (Fretless_link c f)) = noteChannelDownCount c"
  "noteChannelDownRawBalance (fst (Fretless_link c f)) = noteChannelDownRawBalance c"
  "channelBase (fst (Fretless_link c f)) = channelBase c"
  "channelSpan (fst (Fretless_link c f)) = channelSpan c"
  "channelBendSemis (fst (Fretless_link c f)) = channelBendSemis c"
  "supressBends (fst (Fretless_link c f)) = supressBends c"
  "trace (fst (Fretless_link c f)) = trace c"
  by (simp_all add: Fretless_link_def Let_def sel_prims split_def)

lemma frame_unlink:
  "channels (fst (Fretless_unlink c f)) = channels c"
  "ctxState (fst (Fretless_unlink c f)) = ctxState c"
  "lastAllocatedChannel (fst (Fretless_unlink c f)) = lastAllocatedChannel c"
  "fingersDownCount (fst (Fretless_unlink c f)) = fingersDownCount c"
  "noteChannelDownCount (fst (Fretless_unlink c f)) = noteChannelDownCount c"
  "noteChannelDownRawBalance (fst (Fretless_unlink c f)) = noteChannelDownRawBalance c"
  "channelBase (fst (Fretless_unlink c f)) = channelBase c"
  "channelSpan (fst (Fretless_unlink c f)) = channelSpan c"
  "channelBendSemis (fst (Fretless_unlink c f)) = channelBendSemis c"
  "supressBends (fst (Fretless_unlink c f)) = supressBends c"
  "trace (fst (Fretless_unlink c f)) = trace c"
  by (simp_all add: Fretless_unlink_def Let_def sel_prims split_def)

lemma frame_allocChannel_take:
  "polys (Fretless_allocChannel_take c f ch) = polys c"
  "ctxState (Fretless_allocChannel_take c f ch) = ctxState c"
  "fingersDownCount (Fretless_allocChannel_take c f ch) = fingersDownCount c"
  "noteChannelDownCount (Fretless_allocChannel_take c f ch) = noteChannelDownCount c"
  "noteChannelDownRawBalance (Fretless_allocChannel_take c f ch) = noteChannelDownRawBalance c"
  "channelBase (Fretless_allocChannel_take c f ch) = channelBase c"
  "channelSpan (Fretless_allocChannel_take c f ch) = channelSpan c"
  "channelBendSemis (Fretless_allocChannel_take c f ch) = channelBendSemis c"
  "supressBends (Fretless_allocChannel_take c f ch) = supressBends c"
  by (simp_all add: Fretless_allocChannel_take_def Let_def sel_prims split_def)

lemma frame_freeChannel:
  "polys (Fretless_freeChannel c f) = polys c"
  "ctxState (Fretless_freeChannel c f) = ctxState c"
  "lastAllocatedChannel (Fretless_freeChannel c f) = lastAllocatedChannel c"
  "fingersDownCount (Fretless_freeChannel c f) = fingersDownCount c"
  "noteChannelDownCount (Fretless_freeChannel c f) = noteChannelDownCount c"
  "noteChannelDownRawBalance (Fretless_freeChannel c f) = noteChannelDownRawBalance c"
  "channelBase (Fretless_freeChannel c f) = channelBase c"
  "channelSpan (Fretless_freeChannel c f) = channelSpan c"
  "channelBendSemis (Fretless_freeChannel c f) = channelBendSemis c"
  "supressBends (Fretless_freeChannel c f) = supressBends c"
  by (simp_all add: Fretless_freeChannel_def Let_def sel_prims split_def)

lemma frame_endDown_check:
  "fingers (Fretless_endDown_check c f x pg) = fingers c"
  "channels (Fretless_endDown_check c f x pg) = channels c"
  "polys (Fretless_endDown_check c f x pg) = polys c"
  "ctxState (Fretless_endDown_check c f x pg) = ctxState c"
  "lastAllocatedChannel (Fretless_endDown_check c f x pg) = lastAllocatedChannel c"
  "fingersDownCount (Fretless_endDown_check c f x pg) = fingersDownCount c"
  "noteChannelDownCount (Fretless_endDown_check c f x pg) = noteChannelDownCount c"
  "noteChannelDownRawBalance (Fretless_endDown_check c f x pg) = noteChannelDownRawBalance c"
  "channelBase (Fretless_endDown_check c f x pg) = channelBase c"
  "channelSpan (Fretless_endDown_check c f x pg) = channelSpan c"
  "channelBendSemis (Fretless_endDown_check c f x pg) = channelBendSemis c"
  "supressBends (Fretless_endDown_check c f x pg) = supressBends c"
  by (simp_all add: Fretless_endDown_check_def frame_STATECHECK frame_FINGERCHECK frame_POLYCHECK frame_FNOTECHECK Let_def sel_prims split_def)

lemma frame_endDown_store:
  "channels (Fretless_endDown_store c f x pg v) = channels c"
  "polys (Fretless_endDown_store c f x pg v) = polys c"
  "ctxState (Fretless_endDown_store c f x pg v) = ctxState c"
  "lastAllocatedChannel (Fretless_endDown_store c f x pg v) = lastAllocatedChannel c"
  "noteChannelDownRawBalance (Fretless_endDown_store c f x pg v) = noteChannelDownRawBalance c"
  "channelBase (Fretless_endDown_store c f x pg v) = channelBase c"
  "channelSpan (Fretless_endDown_store c f x pg v) = channelSpan c"
  "channelBendSemis (Fretless_endDown_store c f x pg v) = channelBendSemis c"
  "supressBends (Fretless_endDown_store c f x pg v) = supressBends c"
  "trace (Fretless_endDown_store c f x pg v) = trace c"
  by (simp_all add: Fretless_endDown_store_def Let_def sel_prims split_def)

lemma frame_endDown_preOff:
  "fingers (Fretless_endDown_preOff c f) = fingers c"
  "channels (Fretless_endDown_preOff c f) = channels c"
  "polys (Fretless_endDown_preOff c f) = polys c"
  "ctxState (Fretless_endDown_preOff c f) = ctxState c"
  "lastAllocatedChannel (Fretless_endDown_preOff c f) = lastAllocatedChannel c"
  "fingersDownCount (Fretless_endDown_preOff c f) = fingersDownCount c"
  "noteChannelDownCount (Fretless_endDown_preOff c f) = noteChannelDownCount c"
  "channelBase (Fretless_endDown_preOff c f) = channelBase c"
  "channelSpan (Fretless_endDown_preOff c f) = channelSpan c"
  "channelBendSemis (Fretless_endDown_preOff c f) = channelBendSemis c"
  "supressBends (Fretless_endDown_preOff c f) = supressBends c"
  by (simp_all add: Fretless_endDown_preOff_def frame_noteOff Let_def sel_prims split_def)

lemma frame_endDown_current:
  "fingers (Fretless_endDown_current c f) = fingers c"
  "channels (Fretless_endDown_current c f) = channels c"
  "polys (Fretless_endDown_current c f) = polys c"
  "ctxState (Fretless_endDown_current c f) = ctxState c"
  "lastAllocatedChannel (Fretless_endDown_current c f) = lastAllocatedChannel c"
  "fingersDownCount (Fretless_endDown_current c f) = fingersDownCount c"
  "noteChannelDownCount (Fretless_endDown_current c f) = noteChannelDownCount c"
  "noteChannelDownRawBalance (Fretless_endDown_current c f) = noteChannelDownRawBalance c"
  "channelBase (Fretless_endDown_current c f) = channelBase c"
  "channelSpan (Fretless_endDown_current c f) = channelSpan c"
  "channelBendSemis (Fretless_endDown_current c f) = channelBendSemis c"
  "supressBends (Fretless_endDown_current c f) = supressBends c"
  by (simp_all add: Fretless_endDown_current_def Let_def sel_prims split_def)

lemma frame_endDown_turnOff:
  "fingers (Fretless_endDown_turnOff c g legato) = fingers c"
  "channels (Fretless_endDown_turnOff c g legato) = channels c"
  "polys (Fretless_endDown_turnOff c g legato) = polys c"
  "ctxState (Fretless_endDown_turnOff c g legato) = ctxState c"
  "lastAllocatedChannel (Fretless_endDown_turnOff c g legato) = lastAllocatedChannel c"
  "fingersDownCount (Fretless_endDown_turnOff c g legato) = fingersDownCount c"
  "noteChannelDownCount (Fretless_endDown_turnOff c g legato) = noteChannelDownCount c"
  "channelBase (Fretless_endDown_turnOff c g legato) = channelBase c"
  "channelSpan (Fretless_endDown_turnOff c g legato) = channelSpan c"
  "channelBendSemis (Fretless_endDown_turnOff c g legato) = channelBendSemis c"
  "supressBends (Fretless_endDown_turnOff c g legato) = supressBends c"
  by (simp_all add: Fretless_endDown_turnOff_def frame_noteOff frame_noteTie Let_def sel_prims split_def)

lemma frame_endDown_noteOn:
  "fingers (Fretless_endDown_noteOn c f) = fingers c"
  "channels (Fretless_endDown_noteOn c f) = channels c"
  "polys (Fretless_endDown_noteOn c f) = polys c"
  "ctxState (Fretless_endDown_noteOn c f) = ctxState c"
  "lastAllocatedChannel (Fretless_endDown_noteOn c f) = lastAllocatedChannel c"
  "fingersDownCount (Fretless_endDown_noteOn c f) = fingersDownCount c"
  "noteChannelDownCount (Fretless_endDown_noteOn c f) = noteChannelDownCount c"
  "channelBase (Fretless_endDown_noteOn c f) = channelBase c"
  "channelSpan (Fretless_endDown_noteOn c f) = channelSpan c"
  "channelBendSemis (Fretless_endDown_noteOn c f) = channelBendSemis c"
  "supressBends (Fretless_endDown_noteOn c f) = supressBends c"
  by (simp_all add: Fretless_endDown_noteOn_def frame_noteOn Let_def sel_prims split_def)

lemma frame_endDown:
  "ctxState (Fretless_endDown c f x pg v legato) = ctxState c"
  "lastAllocatedChannel (Fretless_endDown c f x pg v legato) = lastAllocatedChannel c"
  "channelBase (Fretless_endDown c f x pg v legato) = channelBase c"
  "channelSpan (Fretless_endDown c f x pg v legato) = channelSpan c"
  "channelBendSemis (Fretless_endDown c f x pg v legato) = channelBendSemis c"
  "supressBends (Fretless_endDown c f x pg v legato) = supressBends c"
  by (simp_all add: Fretless_endDown_def frame_endDown_check frame_endDown_store frame_endDown_preOff frame_link sel_setCurrentBend frame_endDown_current frame_endDown_turnOff frame_endDown_noteOn Let_def sel_prims split_def)

lemma frame_up_check:
  "fingers (Fretless_up_check c f) = fingers c"
  "channels (Fretless_up_check c f) = channels c"
  "polys (Fretless_up_check c f) = polys c"
  "ctxState (Fretless_up_check c f) = ctxState c"
  "lastAllocatedChannel (Fretless_up_check c f) = lastAllocatedChannel c"
  "fingersDownCount (Fretless_up_check c f) = fingersDownCount c"
  "noteChannelDownCount (Fretless_up_check c f) = noteChannelDownCount c"
  "noteChannelDownRawBalance (Fretless_up_check c f) = noteChannelDownRawBalance c"
  "channelBase (Fretless_up_check c f) = channelBase c"
  "channelSpan (Fretless_up_check c f) = channelSpan c"
  "channelBendSemis (Fretless_up_check c f) = channelBendSemis c"
  "supressBends (Fretless_up_check c f) = supressBends c"
  by (simp_all add: Fretless_up_check_def frame_FINGERCHECK Let_def sel_prims split_def)

lemma frame_up_count:
  "fingers (Fretless_up_count c f) = fingers c"
  "channels (Fretless_up_count c f) = channels c"
  "polys (Fretless_up_count c f) = polys c"
  "ctxState (Fretless_up_count c f) = ctxState c"
  "lastAllocatedChannel (Fretless_up_count c f) = lastAllocatedChannel c"
  "fingersDownCount (Fretless_up_count c f) = fingersDownCount c"
  "noteChannelDownRawBalance (Fretless_up_count c f) = noteChannelDownRawBalance c"
  "channelBase (Fretless_up_count c f) = channelBase c"
  "channelSpan (Fretless_up_count c f) = channelSpan c"
  "channelBendSemis (Fretless_up_count c f) = channelBendSemis c"
  "supressBends (Fretless_up_count c f) = supressBends c"
  "trace (Fretless_up_count c f) = trace c"
  by (simp_all add: Fretless_up_count_def Let_def sel_prims split_def)

lemma frame_up_off:
  "fingers (Fretless_up_off c f w g legato) = fingers c"
  "channels (Fretless_up_off c f w g legato) = channels c"
  "polys (Fretless_up_off c f w g legato) = polys c"
  "ctxState (Fretless_up_off c f w g legato) = ctxState c"
  "lastAllocatedChannel (Fretless_up_off c f w g legato) = lastAllocatedChannel c"
  "fingersDownCount (Fretless_up_off c f w g legato) = fingersDownCount c"
  "noteChannelDownCount (Fretless_up_off c f w g legato) = noteChannelDownCount c"
  "channelBase (Fretless_up_off c f w g legato) = channelBase c"
  "channelSpan (Fretless_up_off c f w g legato) = channelSpan c"
  "channelBendSemis (Fretless_up_off c f w g legato) = channelBendSemis c"
  "supressBends (Fretless_up_off c f w g legato) = supressBends c"
  by (simp_all add: Fretless_up_off_def frame_noteOff frame_noteTie Let_def sel_prims split_def)

lemma frame_up_turnOn:
  "polys (Fretless_up_turnOn c f g ov) = polys c"
  "ctxState (Fretless_up_turnOn c f g ov) = ctxState c"
  "lastAllocatedChannel (Fretless_up_turnOn c f g ov) = lastAllocatedChannel c"
  "fingersDownCount (Fretless_up_turnOn c f g ov) = fingersDownCount c"
  "noteChannelDownCount (Fretless_up_turnOn c f g ov) = noteChannelDownCount c"
  "channelBase (Fretless_up_turnOn c f g ov) = channelBase c"
  "channelSpan (Fretless_up_turnOn c f g ov) = channelSpan c"
  "channelBendSemis (Fretless_up_turnOn c f g ov) = channelBendSemis c"
  "supressBends (Fretless_up_turnOn c f g ov) = supressBends c"
  by (simp_all add: Fretless_up_turnOn_def frame_noteOn sel_setCurrentBend Let_def sel_prims split_def)

lemma frame_up_release:
  "polys (Fretless_up_release c f) = polys c"
  "ctxState (Fretless_up_release c f) = ctxState c"
  "lastAllocatedChannel (Fretless_up_release c f) = lastAllocatedChannel c"
  "noteChannelDownCount (Fretless_up_release c f) = noteChannelDownCount c"
  "noteChannelDownRawBalance (Fretless_up_release c f) = noteChannelDownRawBalance c"
  "channelBase (Fretless_up_release c f) = channelBase c"
  "channelSpan (Fretless_up_release c f) = channelSpan c"
  "channelBendSemis (Fretless_up_release c f) = channelBendSemis c"
  "supressBends (Fretless_up_release c f) = supressBends c"
  by (simp_all add: Fretless_up_release_def frame_freeChannel Let_def sel_prims split_def)

lemma frame_express:
  "fingers (Fretless_express c f k v) = fingers c"
  "channels (Fretless_express c f k v) = channels c"
  "polys (Fretless_express c f k v) = polys c"
  "ctxState (Fretless_express c f k v) = ctxState c"
  "lastAllocatedChannel (Fretless_express c f k v) = lastAllocatedChannel c"
  "fingersDownCount (Fretless_express c f k v) = fingersDownCount c"
  "noteChannelDownCount (Fretless_express c f k v) = noteChannelDownCount c"
  "noteChannelDownRawBalance (Fretless_express c f k v) = noteChannelDownRawBalance c"
  "channelBase (Fretless_express c f k v) = channelBase c"
  "channelSpan (Fretless_express c f k v) = channelSpan c"
  "channelBendSemis (Fretless_express c f k v) = channelBendSemis c"
  "supressBends (Fretless_express c f k v) = supressBends c"
  by (simp_all add: Fretless_express_def frame_FINGERCHECK Let_def sel_prims split_def)

lemma frame_flush:
  "fingers (Fretless_flush c) = fingers c"
  "channels (Fretless_flush c) = channels c"
  "polys (Fretless_flush c) = polys c"
  "ctxState (Fretless_flush c) = ctxState c"
  "lastAllocatedChannel (Fretless_flush c) = lastAllocatedChannel c"
  "fingersDownCount (Fretless_flush c) = fingersDownCount c"
  "noteChannelDownCount (Fretless_flush c) = noteChannelDownCount c"
  "noteChannelDownRawBalance (Fretless_flush c) = noteChannelDownRawBalance c"
  "channelBase (Fretless_flush c) = channelBase c"
  "channelSpan (Fretless_flush c) = channelSpan c"
  "channelBendSemis (Fretless_flush c) = channelBendSemis c"
  "supressBends (Fretless_flush c) = supressBends c"
  by (simp_all add: Fretless_flush_def Let_def sel_prims split_def)

subsection \<open>The last finger up\<close>

lemma unlink_sole:
  assumes "currentFingerInPolyGroup (polys c (polyGroup (fingers c f))) = f"
    "prevFingerInPolyGroup (fingers c f) = - 1" "nextFingerInPolyGroup (fingers c f) = - 1"
  shows "Fretless_unlink c f =
           (set_finger f (\<lambda>fs. fs\<lparr>prevFingerInPolyGroup := - 1, nextFingerInPolyGroup := - 1,
                                    polyGroup := - 1\<rparr>)
              (set_poly (polyGroup (fingers c f)) (\<lambda>ps. ps\<lparr>currentFingerInPolyGroup := - 1\<rparr>) c), - 1)"
  using assms
  by (simp add: Fretless_unlink_def ev prim_defs cong: ev_cong)

lemma freeChannel_sole:
  assumes "currentFingerInChannel (channels c (channel (fingers c f))) = f"
    "prevFingerInChannel (fingers c f) = - 1" "nextFingerInChannel (fingers c f) = - 1"
    "1 \<le> useCount (channels c (channel (fingers c f)))"
  shows "Fretless_freeChannel c f =
           set_finger f (\<lambda>fs. fs\<lparr>prevFingerInChannel := - 1, nextFingerInChannel := - 1\<rparr>)
             (set_channel (channel (fingers c f))
                (\<lambda>cs. cs\<lparr>useCount := useCount cs - 1, currentFingerInChannel := - 1\<rparr>) c)"
  using assms
  by (simp add: Fretless_freeChannel_def ev prim_defs cong: ev_cong)


lemma up_release_sole:
  assumes "currentFingerInChannel (channels c (channel (fingers c f))) = f"
    "prevFingerInChannel (fingers c f) = - 1" "nextFingerInChannel (fingers c f) = - 1"
    "useCount (channels c (channel (fingers c f))) = 1"
    "noteChannelDownCount c (note (fingers c f)) (channel (fingers c f)) = 0" "fingersDownCount c = 1"
  shows "Fretless_up_release c f =
     (set_finger f Fretless_reset_FingerState
          (set_channel (channel (fingers c f)) (\<lambda>cs. cs\<lparr>useCount := 0, currentFingerInChannel := - 1\<rparr>) c))
        \<lparr>fingersDownCount := 0\<rparr>"
  apply (simp add: Fretless_up_release_def freeChannel_sole assms ev cong: ev_cong)
  apply (simp add: prim_defs Fretless_reset_FingerState_def assms)
  done


lemma up_check_ok:
  assumes "0 \<le> f" "f < 16" "isOn (fingers c f) = 1"
  shows "Fretless_up_check c f = c"
  using assms by (simp add: Fretless_up_check_def FINGERCHECK_def)

lemma up_off_sole:
  assumes "noteChannelDownCount c (note (fingers c f)) (channel (fingers c f)) = 0"
  shows "Fretless_up_off c f 0 (- 1) legato = noteOff f c"
  using assms by (simp add: Fretless_up_off_def)

lemma up_turnOn_none: "Fretless_up_turnOn c f (- 1) ov = c"
  by (simp add: Fretless_up_turnOn_def)

lemma up_last:
  fixes c f legato
  defines "n \<equiv> note (fingers c f)" and "ch \<equiv> channel (fingers c f)" and "pg \<equiv> polyGroup (fingers c f)"
  assumes "0 \<le> f" "f < 16" "isOn (fingers c f) = 1" "isSupressed (fingers c f) = 0"
    "currentFingerInPolyGroup (polys c pg) = f"
    "prevFingerInPolyGroup (fingers c f) = - 1" "nextFingerInPolyGroup (fingers c f) = - 1"
    "prevFingerInChannel (fingers c f) = - 1" "nextFingerInChannel (fingers c f) = - 1"
    "currentFingerInChannel (channels c ch) = f" "useCount (channels c ch) = 1"
    "noteChannelDownCount c n ch = 1" "fingersDownCount c = 1"
  shows "Fretless_up c f legato =
     Fretless_selfTest
       ((set_finger f Fretless_reset_FingerState
          (set_channel ch (\<lambda>cs. cs\<lparr>useCount := 0, currentFingerInChannel := - 1\<rparr>)
            (noteOff f
                (set_downCount n ch 0
                  (set_finger f (\<lambda>fs. fs\<lparr>prevFingerInPolyGroup := - 1, nextFingerInPolyGroup := - 1,
                                    polyGroup := - 1\<rparr>)
                  (set_poly pg (\<lambda>ps. ps\<lparr>currentFingerInPolyGroup := - 1\<rparr>) c))))))
        \<lparr>fingersDownCount := 0\<rparr>)"
proof -
  note a = assms(4-)[unfolded n_def ch_def pg_def]
  show ?thesis
    unfolding n_def ch_def pg_def
    by (simp add: Fretless_up_def up_check_ok unlink_sole Fretless_up_count_def up_off_sole
        up_turnOn_none up_release_sole frame_noteOff a
        ev cong: ev_cong)
qed

subsection \<open>Bytes and ranges\<close>

lemma midiBytes_append: "midiBytes (xs @ ys) = midiBytes xs @ midiBytes ys"
  by (induction xs rule: midiBytes.induct) simp_all

lemma failures_append: "failures (xs @ ys) = failures xs @ failures ys"
  by (induction xs rule: failures.induct) simp_all

lemma midiBytes_bendEvents:
  "midiBytes (bendEvents ch b) =
     [word_of_int (224 + ch), word_of_int (b AND 127), word_of_int (drop_bit 7 b AND 127)]"
  by (simp add: bendEvents_def)

lemma failures_bendEvents: "failures (bendEvents ch b) = []"
  by (simp add: bendEvents_def)

lemma int_lt16_cases:
  assumes "0 \<le> (x::int)" "x < 16"
  shows "x \<in> {0, 1, 2, 3, 4, 5, 6, 7, 8, 9, 10, 11, 12, 13, 14, 15}"
  using assms by simp presburger

lemma status_noteOn:
  assumes "0 \<le> ch" "ch < 16"
  shows "(word_of_int (144 + ch) :: 8 word) AND 240 = 144"
    and "(word_of_int (144 + ch) :: 8 word) AND 15 = word_of_int ch"
  using int_lt16_cases[OF assms] by (elim insertE; simp)+

lemma status_bend:
  assumes "0 \<le> ch" "ch < 16"
  shows "(word_of_int (224 + ch) :: 8 word) AND 240 = 224"
  using int_lt16_cases[OF assms] by (elim insertE; simp)

lemma data_byte_not_status:
  "(word_of_int (x AND 127) :: 8 word) AND 240 \<noteq> 144"
proof
  assume e: "(word_of_int (x AND 127) :: 8 word) AND 240 = 144"
  have "bit ((word_of_int (x AND 127) :: 8 word) AND 240) 7 = bit (144 :: 8 word) 7"
    by (simp only: e)
  then show False by (simp add: bit_simps)
qed

lemma note_range:
  assumes "- 0.5 \<le> fnote" "fnote < 127.5"
  shows "0 \<le> c_int (fnote + 0.5)" "c_int (fnote + 0.5) < 128"
  using assms by (simp_all add: c_int_def floor_less_iff)

lemma limitVal_range:
  "1 \<le> Fretless_limitVal 1 x 127" "Fretless_limitVal 1 x 127 \<le> 127"
  by (simp_all add: Fretless_limitVal_def)

lemma velocity_byte_nonzero:
  assumes "1 \<le> x" "x \<le> 127"
  shows "(word_of_int x :: 8 word) \<noteq> 0"
proof
  assume "(word_of_int x :: 8 word) = 0"
  then have "uint (word_of_int x :: 8 word) = 0" by simp
  then show False using assms by (simp add: uint_word_of_int)
qed

subsection \<open>One finger down and up again, from an idle context\<close>

lemma sel_noteOff:
  "noteChannelDownRawBalance (noteOff f c) =
     (noteChannelDownRawBalance c)(note (fingers c f) :=
        (noteChannelDownRawBalance c (note (fingers c f)))(channel (fingers c f) :=
           noteChannelDownRawBalance c (note (fingers c f)) (channel (fingers c f)) - 1))"
  "trace (noteOff f c) =
     trace c @ [Putch (word_of_int (144 + channel (fingers c f))), Putch (word_of_int (note (fingers c f))),
                Putch 0]"
  by (simp_all add: noteOff_def Let_def sel_prims)

lemma sel_noteOn:
  "noteChannelDownRawBalance (noteOn f c) =
     (noteChannelDownRawBalance c)(note (fingers c f) :=
        (noteChannelDownRawBalance c (note (fingers c f)))(channel (fingers c f) :=
           noteChannelDownRawBalance c (note (fingers c f)) (channel (fingers c f)) + 1))"
  "trace (noteOn f c) =
     trace c @ [Putch (word_of_int (144 + channel (fingers c f))), Putch (word_of_int (note (fingers c f))),
                Putch (word_of_int (velocity (fingers c f)))]"
  by (simp_all add: noteOn_def Let_def sel_prims)

lemma status_noteOn':
  assumes "0 \<le> ch" "ch < 16"
  shows "(144 + word_of_int ch :: 8 word) AND 240 = 144"
    and "(144 + word_of_int ch :: 8 word) AND 15 = word_of_int ch"
  using status_noteOn[OF assms] by simp_all

lemma status_bend':
  assumes "0 \<le> ch" "ch < 16"
  shows "(224 + word_of_int ch :: 8 word) AND 240 = 224"
  using status_bend[OF assms] by simp

text \<open>From an idle context: \<^verbatim>\<open>beginDown\<close> and \<^verbatim>\<open>endDown\<close> of one finger.\<close>

lemma first_down:
  fixes v :: real and legato :: int
  assumes i: "idle ctx" and h: "hints_ok ctx" and f: "0 \<le> f" "f < 16"
    and fn: "- 0.5 \<le> fnote" "fnote < 127.5" and pg: "0 \<le> pg" "pg < 16"
  defines "ch \<equiv> Fretless_allocChannel_candidate ctx 0"
    and "n \<equiv> c_int (fnote + 0.5)"
    and "vel \<equiv> Fretless_limitVal 1 (c_int (v * 127)) 127"
  defines "b \<equiv> c_int (8192 + (fnote - of_int n) * 8192 / of_int (channelBendSemis ctx))"
  defines "B \<equiv> (set_finger f (\<lambda>fs. fs\<lparr>isOn := 1, channel := ch\<rparr>)
                   (set_channel ch (\<lambda>cs. cs\<lparr>useCount := 1, currentFingerInChannel := f\<rparr>) ctx))
                 \<lparr>lastAllocatedChannel := ch\<rparr>"
  defines "E \<equiv> Fretless_endDown B f fnote pg v legato"
  shows "Fretless_beginDown ctx f = Some B"
    and "fingers E = (fingers ctx)(f := (fingers ctx f)\<lparr>isOn := 1, channel := ch, velocity := vel,
         note := n, bend := b, polyGroup := pg\<rparr>)"
    and "polys E = (polys ctx)(pg := (polys ctx pg)\<lparr>currentFingerInPolyGroup := f\<rparr>)"
    and "channels E = (channels ctx)(ch := (channels ctx ch)
              \<lparr>useCount := 1, currentFingerInChannel := f,
               lastBend := (if supressBends ctx = 0 then b else lastBend (channels ctx ch))\<rparr>)"
    and "noteChannelDownCount E = (noteChannelDownCount ctx)(n := (noteChannelDownCount ctx n)(ch := 1))"
    and "noteChannelDownRawBalance E =
       (noteChannelDownRawBalance ctx)(n := (noteChannelDownRawBalance ctx n)(ch := 1))"
    and "fingersDownCount E = 1"
    and "trace E = trace ctx @
         (if lastBend (channels ctx ch) \<noteq> b \<and> supressBends ctx = 0 then bendEvents ch b else []) @
         [Putch (word_of_int (144 + ch)), Putch (word_of_int n), Putch (word_of_int vel)]"
proof -
  show bd: "Fretless_beginDown ctx f = Some B"
    unfolding B_def ch_def by (rule beginDown_idle[OF i h f])
  have r: "0 \<le> ch" "ch < 16"
    using candidate_range[OF h, of 0] i unfolding ch_def by (simp_all add: idle_iff)
  have nr: "0 \<le> n" "n < 128" using note_range[OF fn] by (simp_all add: n_def)
  note fi = idle_finger[OF i f]
  have ci: "useCount (channels ctx ch) = 0" "currentFingerInChannel (channels ctx ch) = - 1"
    and pi: "currentFingerInPolyGroup (polys ctx pg) = - 1"
    and di: "noteChannelDownCount ctx n ch = 0" "noteChannelDownRawBalance ctx n ch = 0"
    and st: "ctxState ctx = 1" and fd: "fingersDownCount ctx = 0"
    using i r pg nr by (simp_all add: idle_iff)
  have Bs: "fingers B = (fingers ctx)(f := (fingers ctx f)\<lparr>isOn := 1, channel := ch\<rparr>)"
    "channels B = (channels ctx)(ch := (channels ctx ch)\<lparr>useCount := 1, currentFingerInChannel := f\<rparr>)"
    "polys B = polys ctx" "ctxState B = 1" "noteChannelDownCount B = noteChannelDownCount ctx"
    "noteChannelDownRawBalance B = noteChannelDownRawBalance ctx" "fingersDownCount B = 0"
    "trace B = trace ctx" "supressBends B = supressBends ctx" "channelBendSemis B = channelBendSemis ctx"
    by (simp_all add: B_def sel_prims st fd)
  have pre:
    "ctxState B = 1" "0 \<le> f" "f < 16" "0 \<le> pg" "pg < 16" "- 0.5 \<le> fnote" "fnote < 127.5"
    "isOn (fingers B f) = 1" "isSupressed (fingers B f) = 0"
    "currentFingerInPolyGroup (polys B pg) = - 1"
    "currentFingerInChannel (channels B (channel (fingers B f))) = f"
    "noteChannelDownCount B (c_int (fnote + 0.5)) (channel (fingers B f)) = 0"
    "noteChannelDownRawBalance B (c_int (fnote + 0.5)) (channel (fingers B f)) = 0"
    using f pg fn fi pi di by (simp_all add: Bs n_def)
  note Es0 = endDown_first[OF pre, of v legato, folded E_def]
  show "fingers E = (fingers ctx)(f := (fingers ctx f)\<lparr>isOn := 1, channel := ch, velocity := vel,
         note := n, bend := b, polyGroup := pg\<rparr>)"
    "polys E = (polys ctx)(pg := (polys ctx pg)\<lparr>currentFingerInPolyGroup := f\<rparr>)"
    "channels E = (channels ctx)(ch := (channels ctx ch)
              \<lparr>useCount := 1, currentFingerInChannel := f,
               lastBend := (if supressBends ctx = 0 then b else lastBend (channels ctx ch))\<rparr>)"
    "noteChannelDownCount E = (noteChannelDownCount ctx)(n := (noteChannelDownCount ctx n)(ch := 1))"
    "noteChannelDownRawBalance E =
       (noteChannelDownRawBalance ctx)(n := (noteChannelDownRawBalance ctx n)(ch := 1))"
    "fingersDownCount E = 1"
    "trace E = trace ctx @
         (if lastBend (channels ctx ch) \<noteq> b \<and> supressBends ctx = 0 then bendEvents ch b else []) @
         [Putch (word_of_int (144 + ch)), Putch (word_of_int n), Putch (word_of_int vel)]"
    unfolding Es0 by (simp_all add: Bs n_def vel_def b_def)
qed

text \<open>From an idle context: \<^verbatim>\<open>beginDown\<close>, \<^verbatim>\<open>endDown\<close> and \<^verbatim>\<open>up\<close> of one finger; the
  self test at the end passes.\<close>

lemma roundtrip_trace:
  fixes v :: real
  assumes i: "idle ctx" and h: "hints_ok ctx" and f: "0 \<le> f" "f < 16"
    and fn: "- 0.5 \<le> fnote" "fnote < 127.5" and pg: "0 \<le> pg" "pg < 16"
  defines "ch \<equiv> Fretless_allocChannel_candidate ctx 0"
    and "n \<equiv> c_int (fnote + 0.5)"
    and "vel \<equiv> Fretless_limitVal 1 (c_int (v * 127)) 127"
  defines "b \<equiv> c_int (8192 + (fnote - of_int n) * 8192 / of_int (channelBendSemis ctx))"
  shows "\<exists>c1. Fretless_beginDown ctx f = Some c1 \<and>
           trace (Fretless_up (Fretless_endDown c1 f fnote pg v legato) f legato') =
             trace ctx @
             (if lastBend (channels ctx ch) \<noteq> b \<and> supressBends ctx = 0 then bendEvents ch b else []) @
             [Putch (word_of_int (144 + ch)), Putch (word_of_int n), Putch (word_of_int vel),
              Putch (word_of_int (144 + ch)), Putch (word_of_int n), Putch 0, Passed]"
proof -
  define B where "B = (set_finger f (\<lambda>fs. fs\<lparr>isOn := 1, channel := ch\<rparr>)
                   (set_channel ch (\<lambda>cs. cs\<lparr>useCount := 1, currentFingerInChannel := f\<rparr>) ctx))
                 \<lparr>lastAllocatedChannel := ch\<rparr>"
  define E where "E = Fretless_endDown B f fnote pg v legato"
  note bd = first_down(1)[OF i h f fn pg, folded ch_def, folded B_def]
  note Es = first_down(2-)[OF i h f fn pg, where v = v and legato = legato,
      folded ch_def n_def vel_def, folded b_def, folded B_def, folded E_def]
  note fi = idle_finger[OF i f]
  have upre:
    "0 \<le> f" "f < 16" "isOn (fingers E f) = 1" "isSupressed (fingers E f) = 0"
    "currentFingerInPolyGroup (polys E (polyGroup (fingers E f))) = f"
    "prevFingerInPolyGroup (fingers E f) = - 1" "nextFingerInPolyGroup (fingers E f) = - 1"
    "prevFingerInChannel (fingers E f) = - 1" "nextFingerInChannel (fingers E f) = - 1"
    "currentFingerInChannel (channels E (channel (fingers E f))) = f"
    "useCount (channels E (channel (fingers E f))) = 1"
    "noteChannelDownCount E (note (fingers E f)) (channel (fingers E f)) = 1" "fingersDownCount E = 1"
    using f fi by (simp_all add: Es)
  define X where "X = (set_finger f Fretless_reset_FingerState
          (set_channel ch (\<lambda>cs. cs\<lparr>useCount := 0, currentFingerInChannel := - 1\<rparr>)
            (noteOff f
                (set_downCount n ch 0
                  (set_finger f (\<lambda>fs. fs\<lparr>prevFingerInPolyGroup := - 1, nextFingerInPolyGroup := - 1,
                                    polyGroup := - 1\<rparr>)
                  (set_poly pg (\<lambda>ps. ps\<lparr>currentFingerInPolyGroup := - 1\<rparr>) E))))))
        \<lparr>fingersDownCount := 0\<rparr>"
  have up: "Fretless_up E f legato' = Fretless_selfTest X"
    unfolding up_last[OF upre, of legato'] X_def by (simp add: Es)
  have Xs:
    "fingersDownCount X = 0"
    "fingers X = (fingers ctx)(f := Fretless_reset_FingerState (fingers ctx f))"
    "polys X = (polys ctx)(pg := (polys ctx pg)\<lparr>currentFingerInPolyGroup := - 1\<rparr>)"
    "channels X = (channels ctx)(ch := (channels ctx ch)
              \<lparr>lastBend := (if supressBends ctx = 0 then b else lastBend (channels ctx ch)),
               useCount := 0, currentFingerInChannel := - 1\<rparr>)"
    "noteChannelDownCount X = (noteChannelDownCount ctx)(n := (noteChannelDownCount ctx n)(ch := 0))"
    "noteChannelDownRawBalance X =
       (noteChannelDownRawBalance ctx)(n := (noteChannelDownRawBalance ctx n)(ch := 0))"
    "trace X = trace E @ [Putch (word_of_int (144 + ch)), Putch (word_of_int n), Putch 0]"
    by (simp_all add: X_def sel_prims frame_noteOff sel_noteOff Es Fretless_reset_FingerState_def)
  have ic: "\<And>c. 0 \<le> c \<Longrightarrow> c < 16 \<Longrightarrow>
              useCount (channels ctx c) = 0 \<and> currentFingerInChannel (channels ctx c) = - 1"
    and idc: "\<And>m c. 0 \<le> m \<Longrightarrow> m < 128 \<Longrightarrow> 0 \<le> c \<Longrightarrow> c < 16 \<Longrightarrow>
              noteChannelDownCount ctx m c = 0 \<and> noteChannelDownRawBalance ctx m c = 0"
    and ip: "\<And>p. 0 \<le> p \<Longrightarrow> p < 16 \<Longrightarrow> currentFingerInPolyGroup (polys ctx p) = - 1"
    using i by (simp_all add: idle_iff)
  have p1: "fingersDownCount X = 0" by (simp add: Xs)
  have p2: "\<forall>c. 0 \<le> c \<and> c < 16 \<longrightarrow>
           useCount (channels X c) = 0 \<and> currentFingerInChannel (channels X c) = - 1"
    by (simp add: Xs ic)
  have p3: "\<forall>m c. 0 \<le> m \<and> m < 128 \<and> 0 \<le> c \<and> c < 16 \<longrightarrow>
           noteChannelDownCount X m c = 0 \<and> noteChannelDownRawBalance X m c = 0"
    by (simp add: Xs idc)
  have p4: "\<forall>p. 0 \<le> p \<and> p < 16 \<longrightarrow> currentFingerInPolyGroup (polys X p) = - 1"
    by (simp add: Xs ip)
  have p5: "\<forall>g. 0 \<le> g \<and> g < 16 \<longrightarrow> isOn (fingers X g) = 0 \<and> nextFingerInChannel (fingers X g) = - 1 \<and>
              prevFingerInChannel (fingers X g) = - 1"
    by (simp add: Xs Fretless_reset_FingerState_def idle_finger[OF i])
  have pass: "Fretless_selfTest X = passed X"
    by (rule selfTest_pass[OF p1 p2 p3 p4 p5])
  show ?thesis
    apply (rule exI[of _ B])
    apply (simp add: bd E_def[symmetric] up pass sel_prims Xs Es)
    done
qed

subsection \<open>The scenario context\<close>

lemma scenario_idle:
  "idle (Fretless_boot (scenario_hints mem))" "hints_ok (Fretless_boot (scenario_hints mem))"
proof -
  have h: "hints_ok (scenario_hints mem)"
    by (simp add: hints_ok_def scenario_hints_eq)
  show "idle (Fretless_boot (scenario_hints mem))" by (rule idle_boot[OF h])
  show "hints_ok (Fretless_boot (scenario_hints mem))"
    by (simp add: hints_ok_def scenario_hints_eq Fretless_boot_eq)
qed

lemma scenario_S1_bytes:
  "map_option (midiBytes \<circ> trace)
     (run (Fretless_boot (scenario_hints mem)) [BeginDown 0, EndDown 0 60 0 1 0]) =
   Some (midiBytes (trace (Fretless_boot (scenario_hints mem))) @ [0x91, 0x3C, 0x7F])"
proof -
  let ?B = "Fretless_boot (scenario_hints mem)"
  have ch: "Fretless_allocChannel_candidate ?B 0 = 1"
    by (simp add: Fretless_allocChannel_candidate_def Fretless_boot_eq scenario_hints_eq c_mod_def)
  have lb: "lastBend (channels ?B 1) = 8192" "channelBendSemis ?B = 2"
    by (simp_all add: Fretless_boot_eq scenario_hints_eq channel0_def)
  note fd = first_down(1,8)[OF scenario_idle, of 0 60 0 mem, simplified]
  show ?thesis
    using fd(1) fd(2)[of 1 0]
    by (simp add: ch lb c_int_def Fretless_limitVal_def midiBytes_append)
qed

lemma hints_base3_span3_eq:
  "hints_base3_span3 = zeroed\<lparr>ctxState := 0, channelSpan := 3, channelBase := 3,
         channelBendSemis := 2, supressBends := 0, trace := []\<rparr>"
  by (simp add: hints_base3_span3_def Fretless_setMidiHintChannelSpan_def
        Fretless_setMidiHintChannelBase_def Fretless_init_def Let_def if_fail zeroed_def)

lemma recycled_init:
  "Fretless_init recycled =
     zeroed\<lparr>fingers := (fingers zeroed)(0 := (fingers zeroed 0)\<lparr>isOn := 1\<rparr>),
            ctxState := 0, channelSpan := 8, channelBase := 0,
            channelBendSemis := 2, supressBends := 0, trace := []\<rparr>"
  by (simp add: Fretless_init_def recycled_def)

section \<open>The claims\<close>

subsection \<open>Hint setters and boot\<close>

text \<open>Claim C10. For every base in [0,15], \<^verbatim>\<open>Fretless_setMidiHintChannelBase(ctx, base)\<close> sets
  \<^verbatim>\<open>channelBase\<close> to base and reduces \<^verbatim>\<open>channelSpan\<close> to 16 - base whenever base plus the
  current \<^verbatim>\<open>channelSpan\<close> exceeds 16; otherwise \<^verbatim>\<open>channelSpan\<close> is left unchanged. The other
  two hints are left as they are, and \<^verbatim>\<open>fail\<close> is not called.\<close>

theorem C10_setMidiHintChannelBase:
  assumes "0 \<le> base" and "base \<le> 15"
  shows "channelBase (Fretless_setMidiHintChannelBase ctx base) = base \<and>
         channelSpan (Fretless_setMidiHintChannelBase ctx base) =
           (if base + channelSpan ctx > 16 then 16 - base else channelSpan ctx) \<and>
         channelBendSemis (Fretless_setMidiHintChannelBase ctx base) = channelBendSemis ctx \<and>
         supressBends (Fretless_setMidiHintChannelBase ctx base) = supressBends ctx \<and>
         trace (Fretless_setMidiHintChannelBase ctx base) = trace ctx"
  using assms by (simp add: Fretless_setMidiHintChannelBase_def Let_def)

text \<open>The witness: after \<^verbatim>\<open>Fretless_init\<close> the span is 8; base 12 reduces it to 4.\<close>

theorem C10_setMidiHintChannelBase_witness:
  "channelBase (Fretless_setMidiHintChannelBase (Fretless_init zeroed) 12) = 12 \<and>
   channelSpan (Fretless_setMidiHintChannelBase (Fretless_init zeroed) 12) = 4"
  using C10_setMidiHintChannelBase [of 12 "Fretless_init zeroed"]
  by (simp add: Fretless_init_def)

text \<open>Claim C7. For every hint assignment with \<^verbatim>\<open>channelBase\<close> in [0,15], \<^verbatim>\<open>channelSpan\<close> in
  [1,16], base + span at most 16 and \<^verbatim>\<open>bendSemis\<close> in [1,24], \<^verbatim>\<open>Fretless_boot\<close> completes
  without invoking \<^verbatim>\<open>fail\<close>.

  The code does not do this at base + span = 16: \<^verbatim>\<open>Fretless_boot\<close> tests
  \<^verbatim>\<open>channelSpan + channelBase >= CHANNELMAX\<close>, while both setters let base + span reach 16.
  After \<^verbatim>\<open>Fretless_init\<close> (base 0, bend 2), \<^verbatim>\<open>Fretless_setMidiHintChannelSpan(ctx, 16)\<close> is
  accepted without \<^verbatim>\<open>fail\<close> and leaves span 16; \<^verbatim>\<open>Fretless_boot\<close> then calls \<^verbatim>\<open>fail\<close>.\<close>

theorem C7_boot_fails_at_sum_16:
  "failures (trace (Fretless_setMidiHintChannelSpan (Fretless_init zeroed) 16)) = [] \<and>
   channelBase (Fretless_setMidiHintChannelSpan (Fretless_init zeroed) 16) = 0 \<and>
   channelSpan (Fretless_setMidiHintChannelSpan (Fretless_init zeroed) 16) = 16 \<and>
   channelBendSemis (Fretless_setMidiHintChannelSpan (Fretless_init zeroed) 16) = 2 \<and>
   failures (trace (Fretless_boot (Fretless_setMidiHintChannelSpan (Fretless_init zeroed) 16))) =
     [''Fretless_state.channelSpan:%d + Fretless_state.channelBase:%d >= CHANNELMAX'']"
  by (simp add: Fretless_boot_eq Fretless_setMidiHintChannelSpan_def Fretless_init_def Let_def
        boot_failures_def zeroed_def upto.simps rpn_events_def)

subsection \<open>Playing a note\<close>

text \<open>Claim C4. For every finger \<open>f\<close>, every in-range \<open>fnote\<close> and poly group and every velocity
  \<open>v\<close> in (0,1], starting from a booted context with no fingers down, the sequence
  \<^verbatim>\<open>beginDown(f); endDown(f, fnote, polyGroup, v, 0); up(f, 0)\<close> emits exactly one Note-On with
  velocity above 0 and exactly one Note-On with velocity 0, both on the same (channel, note)
  pair. All three calls return, and none of them calls \<^verbatim>\<open>fail\<close>.\<close>

theorem C4_roundtrip:
  fixes v :: real
  assumes "idle ctx" and "hints_ok ctx" and "0 \<le> f" and "f < FINGERMAX"
    and "- 0.5 \<le> fnote" and "fnote < 127.5" and "0 \<le> pg" and "pg < POLYMAX"
    and "0 < v" and "v \<le> 1"
  shows "\<exists>c' new ch n vel.
           run ctx [BeginDown f, EndDown f fnote pg v 0, Up f 0] = Some c' \<and>
           midiBytes (trace c') = midiBytes (trace ctx) @ new \<and>
           noteOns new = [(ch, n, vel), (ch, n, 0)] \<and> vel \<noteq> 0 \<and>
           failures (trace c') = failures (trace ctx)"
proof -
  have f: "0 \<le> f" "f < 16" and pg: "0 \<le> pg" "pg < 16" using assms by simp_all
  define ch where "ch = Fretless_allocChannel_candidate ctx 0"
  define n where "n = c_int (fnote + 0.5)"
  define vel where "vel = Fretless_limitVal 1 (c_int (v * 127)) 127"
  define b where "b = c_int (8192 + (fnote - of_int n) * 8192 / of_int (channelBendSemis ctx))"
  from roundtrip_trace[OF assms(1,2) f assms(5,6) pg, of v 0 0, folded ch_def n_def vel_def, folded b_def]
  obtain c1 where bd: "Fretless_beginDown ctx f = Some c1"
    and tr: "trace (Fretless_up (Fretless_endDown c1 f fnote pg v 0) f 0) =
             trace ctx @
             (if lastBend (channels ctx ch) \<noteq> b \<and> supressBends ctx = 0 then bendEvents ch b else []) @
             [Putch (word_of_int (144 + ch)), Putch (word_of_int n), Putch (word_of_int vel),
              Putch (word_of_int (144 + ch)), Putch (word_of_int n), Putch 0, Passed]"
    by blast
  have r: "0 \<le> ch" "ch < 16"
    using candidate_range[OF assms(2), of 0] assms(1) unfolding ch_def by (simp_all add: idle_iff)
  have vr: "(word_of_int vel :: 8 word) \<noteq> 0"
    unfolding vel_def by (rule velocity_byte_nonzero[OF limitVal_range])
  define c' where "c' = Fretless_up (Fretless_endDown c1 f fnote pg v 0) f 0"
  define new where "new = midiBytes
             ((if lastBend (channels ctx ch) \<noteq> b \<and> supressBends ctx = 0 then bendEvents ch b else []) @
             [Putch (word_of_int (144 + ch)), Putch (word_of_int n), Putch (word_of_int vel),
              Putch (word_of_int (144 + ch)), Putch (word_of_int n), Putch 0, Passed])"
  have 1: "run ctx [BeginDown f, EndDown f fnote pg v 0, Up f 0] = Some c'"
    by (simp add: bd c'_def)
  have 2: "midiBytes (trace c') = midiBytes (trace ctx) @ new"
    by (simp only: c'_def tr new_def midiBytes_append)
  have 3: "noteOns new = [(word_of_int ch, word_of_int n, word_of_int vel), (word_of_int ch, word_of_int n, 0)]"
    by (simp add: new_def midiBytes_append midiBytes_bendEvents status_noteOn'[OF r] status_bend'[OF r]
          data_byte_not_status)
  have 4: "failures (trace c') = failures (trace ctx)"
    by (simp add: c'_def tr failures_append failures_bendEvents)
  show ?thesis using 1 2 3 4 vr by blast
qed

text \<open>The witness: finger 3 plays 60.5 in poly group 5 at half velocity, right after boot
  with the scenario hints.\<close>

theorem C4_roundtrip_witness:
  "\<exists>c' new ch n vel.
     run (Fretless_boot (scenario_hints zeroed)) [BeginDown 3, EndDown 3 60.5 5 0.5 0, Up 3 0] = Some c' \<and>
     midiBytes (trace c') = midiBytes (trace (Fretless_boot (scenario_hints zeroed))) @ new \<and>
     noteOns new = [(ch, n, vel), (ch, n, 0)] \<and> vel \<noteq> 0 \<and>
     failures (trace c') = failures (trace (Fretless_boot (scenario_hints zeroed)))"
  by (rule C4_roundtrip[OF scenario_idle]) simp_all

text \<open>Claim C2. Starting from a freshly booted context with hints \<^verbatim>\<open>channelBase\<close> = 0,
  \<^verbatim>\<open>channelSpan\<close> = 2, \<^verbatim>\<open>bendSemis\<close> = 2, \<^verbatim>\<open>supressBends\<close> = false, the calls
  \<^verbatim>\<open>beginDown(0); endDown(0, 60.0, 0, 1.0, 0)\<close> emit exactly the three bytes
  \<^verbatim>\<open>0x90 0x3C 0x7F\<close> after the bytes of boot.

  The code emits \<^verbatim>\<open>0x91 0x3C 0x7F\<close>: \<^verbatim>\<open>Fretless_boot\<close> leaves \<^verbatim>\<open>lastAllocatedChannel\<close> at 0 and
  \<^verbatim>\<open>Fretless_allocChannel\<close> starts its scan one after it, so the first note goes to channel 1.
  This holds whatever the block of the allocator held.\<close>

theorem C2_first_note_on_channel_1:
  "map_option (midiBytes \<circ> trace)
     (run (Fretless_boot (scenario_hints mem)) [BeginDown 0, EndDown 0 60 0 1 0]) =
   Some (midiBytes (trace (Fretless_boot (scenario_hints mem))) @ [0x91, 0x3C, 0x7F])"
  by (rule scenario_S1_bytes)

text \<open>The claim as stated fails on a zeroed block.\<close>

theorem C2_counterexample:
  "map_option (midiBytes \<circ> trace)
     (run (Fretless_boot (scenario_hints zeroed)) [BeginDown 0, EndDown 0 60 0 1 0]) \<noteq>
   Some (midiBytes (trace (Fretless_boot (scenario_hints zeroed))) @ [0x90, 0x3C, 0x7F])"
  unfolding scenario_S1_bytes by simp

subsection \<open>Channel allocation\<close>

text \<open>Claim C1. For every channel allocation performed by \<^verbatim>\<open>Fretless_beginDown\<close> on a booted
  context, the channel returned by \<^verbatim>\<open>Fretless_allocChannel\<close> lies in the span
  [\<^verbatim>\<open>channelBase\<close>, \<^verbatim>\<open>channelBase + channelSpan\<close>) and has the least \<^verbatim>\<open>useCount\<close> of that span.

  The code leaves the span when the scan starts below the base. With base 3 and span 3
  (both accepted by the setters and by \<^verbatim>\<open>Fretless_boot\<close>, no \<^verbatim>\<open>fail\<close>) boot leaves
  \<^verbatim>\<open>lastAllocatedChannel\<close> at 0, so the first candidate is 1 and
  \<^verbatim>\<open>(candidate - base) % span + base\<close> is (-2) % 3 + 3 = 1 in C: the first finger is put on
  channel 1, which is not among 3, 4, 5.\<close>

theorem C1_first_channel_outside_span:
  "failures (trace (Fretless_boot hints_base3_span3)) = [] \<and>
   channelBase (Fretless_boot hints_base3_span3) = 3 \<and> channelSpan (Fretless_boot hints_base3_span3) = 3 \<and>
   lastAllocatedChannel (Fretless_boot hints_base3_span3) = 0 \<and>
   map_option snd (Fretless_allocChannel (Fretless_boot hints_base3_span3) 0) = Some 1 \<and>
   map_option (\<lambda>c. channel (fingers c 0)) (Fretless_beginDown (Fretless_boot hints_base3_span3) 0) = Some 1"
proof -
  let ?B = "Fretless_boot hints_base3_span3"
  have h: "hints_ok hints_base3_span3" by (simp add: hints_ok_def hints_base3_span3_eq)
  have i: "idle ?B" by (rule idle_boot[OF h])
  have hb: "hints_ok ?B" by (simp add: hints_ok_def hints_base3_span3_eq Fretless_boot_eq)
  have ch: "Fretless_allocChannel_candidate ?B 0 = 1"
    by (simp add: Fretless_allocChannel_candidate_def Fretless_boot_eq hints_base3_span3_eq c_mod_def)
  have u: "useCount (channels ?B 1) = 0" using i by (simp add: idle_iff)
  have sp: "0 < channelSpan ?B" using hb by (simp add: hints_ok_def)
  have 1: "failures (trace ?B) = []"
    by (simp add: Fretless_boot_eq hints_base3_span3_eq failures_append boot_failures_def upto.simps rpn_events_def)
  have 2: "channelBase ?B = 3" "channelSpan ?B = 3" "lastAllocatedChannel ?B = 0"
    by (simp_all add: Fretless_boot_eq hints_base3_span3_eq)
  have 3: "map_option snd (Fretless_allocChannel ?B 0) = Some 1"
    by (simp add: allocChannel_first[OF sp, unfolded ch, OF u])
  have 4: "map_option (\<lambda>c. channel (fingers c 0)) (Fretless_beginDown ?B 0) = Some 1"
    by (simp add: beginDown_idle[OF i hb] ch sel_prims)
  show ?thesis using 1 2 3 4 by simp
qed

subsection \<open>Calls before boot\<close>

text \<open>Claim C5. Every public operation other than the hint setters and boot, in particular
  \<^verbatim>\<open>Fretless_beginDown\<close>, \<^verbatim>\<open>Fretless_endDown\<close>, \<^verbatim>\<open>Fretless_up\<close>, \<^verbatim>\<open>Fretless_move\<close> and
  \<^verbatim>\<open>Fretless_express\<close>, routes to \<^verbatim>\<open>fail\<close> when it is called before \<^verbatim>\<open>Fretless_boot\<close>.

  \<^verbatim>\<open>Fretless_up\<close>, \<^verbatim>\<open>Fretless_move\<close> and \<^verbatim>\<open>Fretless_express\<close> do not test the state. On a
  context that \<^verbatim>\<open>Fretless_init\<close> made from a block where finger 0 is on, \<^verbatim>\<open>Fretless_express\<close>
  and \<^verbatim>\<open>Fretless_move\<close> on finger 0 do not call \<^verbatim>\<open>fail\<close>, while \<^verbatim>\<open>Fretless_beginDown\<close> on the
  same context reports that the context is not booted.\<close>

theorem C5_no_state_check:
  "ctxState (Fretless_init recycled) = CTXSTATE_INIT \<and>
   failures (trace (Fretless_express (Fretless_init recycled) 0 1 0.5)) = [] \<and>
   map_option (failures \<circ> trace \<circ> fst) (Fretless_move (Fretless_init recycled) 0 0 0.5 0) = Some [] \<and>
   map_option (failures \<circ> trace) (Fretless_beginDown (Fretless_init recycled) 1) =
     Some [''context is not booted yet'',
           ''ctxp->fingers[currentFingerInChannel].nextFingerInChannel != NOBODY when allocating'']"
proof -
  let ?I = "Fretless_init recycled"
  have z: "isOn (fingers ?I 0) = 1" "isOn (fingers ?I 1) = 0" "channel (fingers ?I 0) = 0"
    "note (fingers ?I 0) = 0" "channelBendSemis ?I = 2" "ctxState ?I = 0" "trace ?I = []"
    "channelSpan ?I = 8" "channelBase ?I = 0" "lastAllocatedChannel ?I = 0"
    "useCount (channels ?I 1) = 0" "polyGroup (fingers ?I 0) = 0"
    "lastBend (channels ?I 0) = 0" "lastAftertouch (channels ?I 0) = 0"
    "currentFingerInChannel (channels ?I 0) = 0" "supressBends ?I = 0"
    "currentFingerInChannel (channels ?I 1) = 0" "nextFingerInChannel (fingers ?I 0) = 0"
    by (simp_all add: recycled_init zeroed_def)
  have 1: "ctxState ?I = CTXSTATE_INIT" by (simp add: z)
  have 2: "failures (trace (Fretless_express ?I 0 1 0.5)) = []"
    by (simp add: Fretless_express_def FINGERCHECK_def ev z cong: ev_cong)
  have 3: "map_option (failures \<circ> trace \<circ> fst) (Fretless_move ?I 0 0 0.5 0) = Some []"
    by (simp add: Fretless_move_def FINGERCHECK_def FNOTECHECK_def ev z
          Fretless_fnoteBendFromExisting_def c_int_def Fretless_setCurrentAftertouch_def
          Fretless_setCurrentBend_def Fretless_numTo7BitNums_def Fretless_limitVal_def
          cong: ev_cong)
  have ch: "Fretless_allocChannel_candidate ?I 0 = 1"
    by (simp add: Fretless_allocChannel_candidate_def ev z c_mod_def)
  have 4: "map_option (failures \<circ> trace) (Fretless_beginDown ?I 1) = Some [''context is not booted yet'',
           ''ctxp->fingers[currentFingerInChannel].nextFingerInChannel != NOBODY when allocating'']"
    by (simp add: Fretless_beginDown_def STATECHECK_def FINGERCHECK_def ev z
          allocChannel_first ch Fretless_allocChannel_take_def candidate_prims cong: ev_cong)
  show ?thesis using 1 2 3 4 by simp
qed

subsection \<open>The decoder\<close>

text \<open>Claim C6. Feeding the decoder \<^verbatim>\<open>0x90 0x3C 0x64, 0xE0 0x00 0x50, 0x80 0x3C 0x00\<close> with
  \<^verbatim>\<open>midiPitchBendSemis\<close> = 2 invokes the engine callback on channel 0 with pitch 60.5 and
  volume 100/127, and then again with volume 0 for the note-off.

  The code calls the engine twice only, for the note-on (pitch 60) and for the bend (pitch
  60.5), both with volume 100/127: the case \<^verbatim>\<open>S_OFF_BYTE_NOTE\<close> sets \<^verbatim>\<open>expectState\<close> to
  \<^verbatim>\<open>S_OFF_BYTE_NOTE\<close> again, so the case \<^verbatim>\<open>S_OFF_BYTE_VOL\<close> that calls the engine with volume
  0 is never reached.\<close>

theorem C6_note_off_never_reaches_engine:
  "engineCalls (DeMIDI_feed [0x90, 0x3C, 0x64, 0xE0, 0x00, 0x50, 0x80, 0x3C, 0x00] DeMIDI_initial) =
     [(0, 0, 60, 100 / 127, 0, 0), (0, 0, 60.5, 100 / 127, 0, 0)]"
  by (simp add: DeMIDI_feed_def DeMIDI_putch_def DeMIDI_status_def DeMIDI_data_def DeMIDI_initial_def
       rawEngine_def computePitch_def computeVol_def DeMIDI_consts Let_def upto.simps)

end
